theory Spec2Isabelle
  imports Complex_Main "HOL-Library.Word" "HOL-Library.Sublist"
begin

section \<open>Shared C-level vocabulary\<close>

text \<open>
  The error numbers the sources test or set, with their Linux values.  The C variable
  \<^verbatim>\<open>errno\<close> is an \<open>int\<close> that is threaded through the model explicitly.
\<close>

datatype errno =
  EPERM | ENOENT | EIO | ENOMEM | EACCES | EBUSY | EEXIST | ENODEV | ENOTDIR
  | EINVAL | ERANGE | ENOSYS | EMSGSIZE

fun errno_val :: "errno \<Rightarrow> int" where
  "errno_val EPERM = 1"
| "errno_val ENOENT = 2"
| "errno_val EIO = 5"
| "errno_val ENOMEM = 12"
| "errno_val EACCES = 13"
| "errno_val EBUSY = 16"
| "errno_val EEXIST = 17"
| "errno_val ENODEV = 19"
| "errno_val ENOTDIR = 20"
| "errno_val EINVAL = 22"
| "errno_val ERANGE = 34"
| "errno_val ENOSYS = 38"
| "errno_val EMSGSIZE = 90"

text \<open>Decimal rendering, as \<^verbatim>\<open>printf\<close> does for \<^verbatim>\<open>%u\<close> and \<^verbatim>\<open>%d\<close>.\<close>

definition digit_char :: "nat \<Rightarrow> char" where
  "digit_char d = ''0123456789'' ! d"

fun show_nat :: "nat \<Rightarrow> string" where
  "show_nat n = (if n < 10 then [digit_char n] else show_nat (n div 10) @ [digit_char (n mod 10)])"

declare show_nat.simps [simp del]

definition show_int :: "int \<Rightarrow> string" where
  "show_int i = (if i < 0 then CHR ''-'' # show_nat (nat (- i)) else show_nat (nat i))"

section \<open>parse.c: the memory-size parser\<close>

text \<open>
  \<^verbatim>\<open>strtoull(nptr, &endptr, 10)\<close> as the C library documents it: white space is skipped,
  an optional sign is read, then the longest run of decimal digits.  With no digit the
  result is 0 and \<^verbatim>\<open>endptr\<close> is \<^verbatim>\<open>nptr\<close>; a value above \<^verbatim>\<open>ULLONG_MAX\<close> gives
  \<^verbatim>\<open>ULLONG_MAX\<close> and sets \<^verbatim>\<open>errno\<close> to \<^verbatim>\<open>ERANGE\<close>; a minus sign negates the value
  in the unsigned type.  The function returns the value, the rest of the string and
  the new \<^verbatim>\<open>errno\<close>.
\<close>

definition is_space :: "char \<Rightarrow> bool" where
  "is_space c = (c \<in> set [CHR '' '', CHR 0x09, CHR 0x0A, CHR 0x0B, CHR 0x0C, CHR 0x0D])"

definition is_digit :: "char \<Rightarrow> bool" where
  "is_digit c = (c \<in> set ''0123456789'')"

definition digit_val :: "char \<Rightarrow> nat" where
  "digit_val c = of_char c - 48"

definition decimal_value :: "string \<Rightarrow> nat" where
  "decimal_value ds = foldl (\<lambda>acc c. 10 * acc + digit_val c) 0 ds"

definition ULLONG_MAX :: "64 word" where
  "ULLONG_MAX = - 1"

definition strtoull :: "int \<Rightarrow> string \<Rightarrow> 64 word \<times> string \<times> int" where
  "strtoull err nptr =
     (let s1 = dropWhile is_space nptr;
          (neg, s2) = (case s1 of
                         [] \<Rightarrow> (False, s1)
                       | c # r \<Rightarrow> if c = CHR ''-'' then (True, r)
                                  else if c = CHR ''+'' then (False, r)
                                  else (False, s1));
          ds = takeWhile is_digit s2;
          rest = dropWhile is_digit s2
      in if ds = [] then (0, nptr, err)
         else if decimal_value ds > 2 ^ 64 - 1 then (ULLONG_MAX, rest, errno_val ERANGE)
         else if neg then (- of_nat (decimal_value ds), rest, err)
         else (of_nat (decimal_value ds), rest, err))"

text \<open>\<^verbatim>\<open>*endptr\<close>: the character the pointer designates, NUL at the end of the string.\<close>

definition deref :: "string \<Rightarrow> char" where
  "deref s = (case s of [] \<Rightarrow> CHR 0x00 | c # _ \<Rightarrow> c)"

text \<open>
  \<^verbatim>\<open>parse_memory\<close>.  The first argument is the value of \<^verbatim>\<open>errno\<close> on entry, which the
  function does not reset before it calls \<^verbatim>\<open>strtoull\<close>; \<open>None\<close> is the NULL pointer.
\<close>

definition parse_memory :: "int \<Rightarrow> string option \<Rightarrow> 64 word" where
  "parse_memory err memory =
     (case memory of
        None \<Rightarrow> 0
      | Some m \<Rightarrow>
          (let (result, endptr, err') = strtoull err m in
           if result = ULLONG_MAX \<and> err' = errno_val ERANGE then 0
           else
             let c = deref endptr in
             if c = CHR ''k'' \<or> c = CHR ''K'' then
               (if result > ULLONG_MAX div 1024 then 0 else result * 1024)
             else if c = CHR ''m'' \<or> c = CHR ''M'' then
               (if result > ULLONG_MAX div (1024 * 1024) then 0 else result * (1024 * 1024))
             else if c = CHR ''g'' \<or> c = CHR ''G'' then
               (if result > ULLONG_MAX div (1024 * 1024 * 1024) then 0
                else result * (1024 * 1024 * 1024))
             else if c \<noteq> CHR ''b'' \<and> c \<noteq> CHR ''B'' \<and> c \<noteq> CHR 0x00 then 0
             else result * 1))"

text \<open>
  The \<^verbatim>\<open>--memory\<close> step of \<^verbatim>\<open>cli_parse_options\<close>: \<open>None\<close> when the option is absent
  (\<^verbatim>\<open>opt_mem->count == 0\<close>), and \<^verbatim>\<open>exit(EXIT_FAILURE)\<close> when the parser returns 0.
\<close>

datatype 'a cli_result = Exit int | Parsed 'a

definition EXIT_FAILURE :: int where
  "EXIT_FAILURE = 1"

definition cli_parse_memory :: "int \<Rightarrow> string option \<Rightarrow> (64 word) cli_result" where
  "cli_parse_memory err opt_mem =
     (case opt_mem of
        None \<Rightarrow> Parsed 0
      | Some sval \<Rightarrow>
          (let memory = parse_memory err (Some sval) in
           if memory = 0 then Exit EXIT_FAILURE else Parsed memory))"

text \<open>
  The spec's reading of a size: the suffix selects the multiplier, and a value that does
  not fit 64 bits, before or after the multiplication, is an error (\<open>None\<close>).
\<close>

definition spec_multiplier :: "string \<Rightarrow> nat option" where
  "spec_multiplier sfx =
     (if sfx \<in> {''k'', ''K''} then Some 1024
      else if sfx \<in> {''m'', ''M''} then Some (1024 * 1024)
      else if sfx \<in> {''g'', ''G''} then Some (1024 * 1024 * 1024)
      else if sfx \<in> {''b'', ''B'', []} then Some 1
      else None)"

definition spec_memory_bytes :: "nat \<Rightarrow> string \<Rightarrow> nat option" where
  "spec_memory_bytes n sfx =
     (case spec_multiplier sfx of
        None \<Rightarrow> None
      | Some m \<Rightarrow> if n < 2 ^ 64 \<and> n * m < 2 ^ 64 then Some (n * m) else None)"

section \<open>The operating system as seen by the program\<close>

text \<open>
  Every system or library call the modelled code makes is an event: the call with its
  arguments and what it returned.  The world decides each result from the events so
  far, so a theorem quantified over the world covers every failure the kernel can
  report.  An integer file descriptor is named by what it was opened on.  Memory
  allocation is taken to succeed.
\<close>

datatype mflag =
  MS_RDONLY | MS_NOSUID | MS_NODEV | MS_NOEXEC | MS_REMOUNT | MS_BIND | MS_REC | MS_PRIVATE

datatype oflag = O_RDONLY | O_WRONLY | O_CREAT | O_DIRECTORY | O_CLOEXEC

datatype clone_flag =
  CLONE_NEWUSER | CLONE_NEWPID | CLONE_NEWUTS | CLONE_NEWIPC | CLONE_PIDFD
  | CLONE_NEWCGROUP | CLONE_NEWTIME | CLONE_NEWNET | CLONE_NEWNS

datatype fdesc = File string | PipeRead | PipeWrite | Pidfd | NlSock

datatype ftype = S_IFDIR | S_IFREG | S_IFCHR | S_IFBLK | S_IFLNK | S_IFIFO | S_IFSOCK

datatype scmp_action = SCMP_ACT_ALLOW | SCMP_ACT_ERRNO errno

datatype syscall =
    Mount "string option" string "string option" "mflag set" "string option"
  | Umount2_detach string
  | PivotRoot string string
  | Chdir string
  | Mkdir string nat
  | Mkdirat string string nat
  | Rmdir string
  | Unlink string
  | Symlink string string
  | Stat string
  | Access string
  | Open string "oflag set"
  | Read fdesc nat
  | Write fdesc string
  | Close fdesc
  | Pipe
  | Clone3 "clone_flag set"
  | Kill int int
  | Sethostname string
  | Prctl_no_new_privs
  | Execve string "string list" "string list"
  | Waitid_pidfd_exited int
  | Seccomp_init scmp_action
  | Seccomp_rule_add scmp_action int
  | Seccomp_load
  | Seccomp_release
  | Nl_socket
  | Nl_bind
  | Nl_sendmsg nat "32 word" int
  | Nl_recvmsg
  | If_nametoindex string
  | Setup_bridge_network string string
  | Move_veth_to_container string int
  | Configure_container_network string

datatype ret = Ok nat | Err errno

type_synonym event = "syscall \<times> ret"

datatype si_code = CLD_EXITED | CLD_KILLED | CLD_DUMPED | CLD_TRAPPED | CLD_STOPPED | CLD_CONTINUED

datatype nl_reply = Nl_error int | Nl_other

record world =
  sys_ret :: "event list \<Rightarrow> syscall \<Rightarrow> ret"
  st_type :: "event list \<Rightarrow> string \<Rightarrow> ftype"
  real_uid :: "32 word"
  real_gid :: "32 word"
  own_pid :: int
  parent_pid :: int
  resolve_name :: "string \<Rightarrow> int option"
  wait_info :: "event list \<Rightarrow> si_code \<times> int"
  nl_msg :: "event list \<Rightarrow> nl_reply"
  nl_truncated :: "event list \<Rightarrow> bool"

record kstate =
  errno :: int
  trace :: "event list"

text \<open>
  One call: the world's answer is recorded; a failure returns -1 and sets \<^verbatim>\<open>errno\<close>,
  a success returns the value and leaves \<^verbatim>\<open>errno\<close> alone.
\<close>

definition rc_of :: "ret \<Rightarrow> int" where
  "rc_of \<rho> = (case \<rho> of Ok n \<Rightarrow> int n | Err e \<Rightarrow> - 1)"

definition step :: "kstate \<Rightarrow> syscall \<Rightarrow> ret \<Rightarrow> kstate" where
  "step s c \<rho> =
     s\<lparr>errno := (case \<rho> of Ok n \<Rightarrow> errno s | Err e \<Rightarrow> errno_val e),
       trace := trace s @ [(c, \<rho>)]\<rparr>"

definition sys :: "world \<Rightarrow> syscall \<Rightarrow> kstate \<Rightarrow> int \<times> kstate" where
  "sys w c s = (let \<rho> = sys_ret w (trace s) c in (rc_of \<rho>, step s c \<rho>))"

text \<open>The events a run added to the trace, and the calls among them.\<close>

definition new_events :: "kstate \<Rightarrow> kstate \<Rightarrow> event list" where
  "new_events s s' = drop (length (trace s)) (trace s')"

definition calls :: "kstate \<Rightarrow> kstate \<Rightarrow> syscall list" where
  "calls s s' = map fst (new_events s s')"

text \<open>A property of the result and final state of a run.\<close>

definition holds :: "('a \<Rightarrow> kstate \<Rightarrow> bool) \<Rightarrow> 'a \<times> kstate \<Rightarrow> bool" where
  "holds P x = P (fst x) (snd x)"

text \<open>
  How a function of the program ends: it returns a value, the process exits, the
  process image is replaced by a successful \<^verbatim>\<open>execve\<close>, or the C standard leaves
  the behaviour undefined.
\<close>

datatype 'a outcome = Return 'a | Exited int | Execed | Undefined

section \<open>utils.c\<close>

definition mkdir_safe :: "world \<Rightarrow> string \<Rightarrow> nat \<Rightarrow> kstate \<Rightarrow> int \<times> kstate" where
  "mkdir_safe w path md s =
     (let (r, s1) = sys w (Mkdir path md) s in
      if r = - 1 \<and> errno s1 \<noteq> errno_val EEXIST then (- 1, s1) else (0, s1))"

definition maybe_mkdir :: "world \<Rightarrow> string \<Rightarrow> nat \<Rightarrow> kstate \<Rightarrow> int \<times> kstate" where
  "maybe_mkdir w path md s =
     (let s0 = s\<lparr>errno := 0\<rparr>;
          (r, s1) = sys w (Mkdir path md) s0 in
      if r = 0 then (0, s1)
      else if errno s1 \<noteq> errno_val EEXIST then (- 1, s1)
      else
        let (r2, s2) = sys w (Stat path) s1 in
        if r2 \<noteq> 0 then (- 1, s2)
        else if st_type w (trace s1) path \<noteq> S_IFDIR then (- 1, s2\<lparr>errno := errno_val ENOTDIR\<rparr>)
        else (0, s2\<lparr>errno := 0\<rparr>))"

text \<open>
  \<^verbatim>\<open>mkdirp\<close>: the loop visits the positions \<open>p \<ge> 1\<close> that hold a slash and creates
  the prefix before each; then the whole path.  Mode \<open>511\<close> is octal 0777.  The C loop
  starts at \<^verbatim>\<open>_path + 1\<close>, so the path is taken to be non-empty.
\<close>

definition slash_positions :: "string \<Rightarrow> nat list" where
  "slash_positions path = filter (\<lambda>p. path ! p = CHR ''/'') [1..<length path]"

fun mkdirp_loop :: "world \<Rightarrow> string \<Rightarrow> nat list \<Rightarrow> kstate \<Rightarrow> int \<times> kstate" where
  "mkdirp_loop w path [] s = (0, s)"
| "mkdirp_loop w path (p # ps) s =
     (let (r, s1) = maybe_mkdir w (take p path) 511 s in
      if r \<noteq> 0 then (- 1, s1) else mkdirp_loop w path ps s1)"

definition mkdirp :: "world \<Rightarrow> string \<Rightarrow> kstate \<Rightarrow> int \<times> kstate" where
  "mkdirp w path s =
     (let s0 = s\<lparr>errno := 0\<rparr>;
          (r, s1) = mkdirp_loop w path (slash_positions path) s0 in
      if r \<noteq> 0 then (- 1, s1)
      else
        let (r2, s2) = maybe_mkdir w path 511 s1 in
        if r2 \<noteq> 0 then (- 1, s2) else (0, s2))"

definition write_file :: "world \<Rightarrow> string \<Rightarrow> string \<Rightarrow> kstate \<Rightarrow> int \<times> kstate" where
  "write_file w path data s =
     (let (fd, s1) = sys w (Open path {O_WRONLY}) s in
      if fd < 0 then (- errno s1, s1)
      else
        let (n, s2) = sys w (Write (File path) data) s1 in
        if n \<noteq> int (length data) then
          (let (c, s3) = sys w (Close (File path)) s2 in (- errno s3, s3))
        else
          (let (c, s3) = sys w (Close (File path)) s2 in (0, s3)))"

definition is_directory :: "world \<Rightarrow> string option \<Rightarrow> kstate \<Rightarrow> int \<times> kstate" where
  "is_directory w path s =
     (case path of
        None \<Rightarrow> (0, s\<lparr>errno := errno_val EINVAL\<rparr>)
      | Some p \<Rightarrow>
          if length p = 0 then (0, s\<lparr>errno := errno_val EINVAL\<rparr>)
          else
            let (r, s1) = sys w (Access p) s in
            if r < 0 then (0, s1)
            else
              let (r2, s2) = sys w (Stat p) s1 in
              if r2 \<noteq> 0 then (0, s2)
              else (if st_type w (trace s1) p = S_IFDIR then 1 else 0, s2))"

section \<open>The C type double\<close>

text \<open>
  A finite double is a 53-bit significand times a power of two, \<open>Finite m e\<close> standing
  for \<open>m * 2 ^ e\<close>.  A product is computed exactly and then rounded to 53 bits, ties to
  even; a result of magnitude \<open>2 ^ 1024\<close> or more is an infinity.  Products are not
  rounded to the subnormal grid: the one multiplication in the program is by 100000
  and cannot produce a subnormal from a double.
\<close>

datatype double = Finite int int | PInf | NInf | NaN

definition double_of_nat :: "nat \<Rightarrow> double" where
  "double_of_nat n = Finite (int n) 0"

fun bit_length :: "nat \<Rightarrow> nat" where
  "bit_length n = (if n = 0 then 0 else Suc (bit_length (n div 2)))"

declare bit_length.simps [simp del]

definition round_double :: "int \<Rightarrow> int \<Rightarrow> double" where
  "round_double m e =
     (let a = nat \<bar>m\<bar> in
      if a < 2 ^ 53 then Finite m e
      else
        let k = bit_length a - 53;
            q = a div 2 ^ k;
            r = a mod 2 ^ k;
            q' = (if r > 2 ^ (k - 1) \<or> (r = 2 ^ (k - 1) \<and> odd q) then q + 1 else q);
            e' = e + int k
        in if int (bit_length q') + e' > 1024 then (if m < 0 then NInf else PInf)
           else Finite (sgn m * int q') e')"

definition dmul :: "double \<Rightarrow> double \<Rightarrow> double" where
  "dmul x y =
     (case (x, y) of
        (Finite m1 e1, Finite m2 e2) \<Rightarrow> round_double (m1 * m2) (e1 + e2)
      | (NaN, _) \<Rightarrow> NaN
      | (_, NaN) \<Rightarrow> NaN
      | (Finite m1 e1, i) \<Rightarrow>
          if m1 = 0 then NaN else if (m1 < 0) = (i = NInf) then PInf else NInf
      | (i, Finite m2 e2) \<Rightarrow>
          if m2 = 0 then NaN else if (m2 < 0) = (i = NInf) then PInf else NInf
      | (i, j) \<Rightarrow> if i = j then PInf else NInf)"

text \<open>\<^verbatim>\<open>x > 0.0\<close>; a comparison with a NaN is false.\<close>

definition dgt_zero :: "double \<Rightarrow> bool" where
  "dgt_zero x = (case x of Finite m e \<Rightarrow> m > 0 | PInf \<Rightarrow> True | NInf \<Rightarrow> False | NaN \<Rightarrow> False)"

text \<open>
  The value of a finite double truncated towards zero, and the cast
  \<^verbatim>\<open>(unsigned int) x\<close>, which C defines only when the truncated value fits the type.
\<close>

definition dtrunc :: "int \<Rightarrow> int \<Rightarrow> int" where
  "dtrunc m e =
     (if e \<ge> 0 then m * 2 ^ nat e
      else sgn m * (\<bar>m\<bar> div 2 ^ nat (- e)))"

definition double_to_uint :: "double \<Rightarrow> 32 word option" where
  "double_to_uint x =
     (case x of
        Finite m e \<Rightarrow>
          if 0 \<le> dtrunc m e \<and> dtrunc m e < 2 ^ 32 then Some (word_of_int (dtrunc m e))
          else None
      | PInf \<Rightarrow> None
      | NInf \<Rightarrow> None
      | NaN \<Rightarrow> None)"

text \<open>The real number a finite double stands for (0 for the others).\<close>

definition dval :: "double \<Rightarrow> real" where
  "dval x =
     (case x of
        Finite m e \<Rightarrow> if e \<ge> 0 then of_int (m * 2 ^ nat e) else of_int m / of_int (2 ^ nat (- e))
      | PInf \<Rightarrow> 0
      | NInf \<Rightarrow> 0
      | NaN \<Rightarrow> 0)"

section \<open>sandbox.c: identity mapping and cgroup limits\<close>

text \<open>
  \<^verbatim>\<open>setup_uid_gid_map\<close>.  \<^verbatim>\<open>getuid()\<close> and \<^verbatim>\<open>getgid()\<close> are unsigned 32-bit values
  that the format \<^verbatim>\<open>%d\<close> prints as signed ones.  The last failure path returns
  without closing the descriptor, as the source does.
\<close>

definition proc_path :: "int \<Rightarrow> string \<Rightarrow> string" where
  "proc_path pid name = ''/proc/'' @ show_int pid @ ''/'' @ name"

definition id_map_line :: "32 word \<Rightarrow> string" where
  "id_map_line i = ''0 '' @ show_int (sint i) @ '' 1'' @ [CHR 0x0A]"

definition setup_uid_gid_map :: "world \<Rightarrow> int \<Rightarrow> kstate \<Rightarrow> int \<times> kstate" where
  "setup_uid_gid_map w pid s =
     (let (r, s1) = write_file w (proc_path pid ''setgroups'') ''deny'' s in
      if r < 0 then (- 1, s1)
      else
        let path = proc_path pid ''uid_map'';
            (fd, s2) = sys w (Open path {O_WRONLY}) s1 in
        if fd < 0 then (- 1, s2)
        else
          let buf = id_map_line (real_uid w);
              (n, s3) = sys w (Write (File path) buf) s2 in
          if n \<noteq> int (length buf) then
            (let (c, s4) = sys w (Close (File path)) s3 in (- 1, s4))
          else
            let (c, s4) = sys w (Close (File path)) s3;
                gpath = proc_path pid ''gid_map'';
                (gfd, s5) = sys w (Open gpath {O_WRONLY}) s4 in
            if gfd < 0 then (- 1, s5)
            else
              let gbuf = id_map_line (real_gid w);
                  (gn, s6) = sys w (Write (File gpath) gbuf) s5 in
              if gn \<noteq> int (length gbuf) then (- 1, s6)
              else
                let (c2, s7) = sys w (Close (File gpath)) s6 in (0, s7))"

text \<open>
  \<^verbatim>\<open>setup_cgroup_limits\<close>, written as the function from each of its blocks onwards:
  attaching the process, the memory limit, the CPU limit, and the whole function.
\<close>

definition cgroup_attach :: "world \<Rightarrow> int \<Rightarrow> string \<Rightarrow> kstate \<Rightarrow> int outcome \<times> kstate" where
  "cgroup_attach w pid cg_path s =
     (let procs_path = cg_path @ ''/cgroup.procs'';
          (fd, s1) = sys w (Open procs_path {O_WRONLY}) s in
      if fd < 0 then (Return (- errno s1), s1)
      else
        let (n, s2) = sys w (Write (File procs_path) (show_int pid)) s1 in
        if n < 0 then (Return (- errno s2), s2)
        else
          let (c, s3) = sys w (Close (File procs_path)) s2 in (Return 0, s3))"

definition cgroup_memory ::
  "world \<Rightarrow> int \<Rightarrow> string \<Rightarrow> 64 word \<Rightarrow> kstate \<Rightarrow> int outcome \<times> kstate" where
  "cgroup_memory w pid cg_path mem s =
     (if mem > 0 then
        let path = cg_path @ ''/memory.max'';
            (fd, s1) = sys w (Open path {O_WRONLY}) s in
        if fd < 0 then (Return (- errno s1), s1)
        else
          let (n, s2) = sys w (Write (File path) (show_nat (unat mem))) s1 in
          if n < 0 then (Return (- errno s2), s2)
          else
            let (c, s3) = sys w (Close (File path)) s2;
                spath = cg_path @ ''/memory.swap.max'';
                (sfd, s4) = sys w (Open spath {O_WRONLY}) s3 in
            if sfd < 0 then (Return (- errno s4), s4)
            else
              let (sn, s5) = sys w (Write (File spath) ''0'') s4 in
              if sn < 0 then (Return (- errno s5), s5)
              else
                let (c2, s6) = sys w (Close (File spath)) s5 in
                cgroup_attach w pid cg_path s6
      else cgroup_attach w pid cg_path s)"

definition cgroup_cpu ::
  "world \<Rightarrow> int \<Rightarrow> string \<Rightarrow> double \<Rightarrow> 64 word \<Rightarrow> kstate \<Rightarrow> int outcome \<times> kstate" where
  "cgroup_cpu w pid cg_path cpus mem s =
     (if dgt_zero cpus then
        let period = 100000 in
        case double_to_uint (dmul cpus (double_of_nat period)) of
          None \<Rightarrow> (Undefined, s)
        | Some quota \<Rightarrow>
            let buf = show_nat (unat quota) @ '' '' @ show_nat period;
                path = cg_path @ ''/cpu.max'';
                (fd, s1) = sys w (Open path {O_WRONLY}) s in
            if fd < 0 then (Return (- errno s1), s1)
            else
              let (n, s2) = sys w (Write (File path) buf) s1 in
              if n < 0 then (Return (- errno s2), s2)
              else
                let (c, s3) = sys w (Close (File path)) s2 in
                cgroup_memory w pid cg_path mem s3
      else cgroup_memory w pid cg_path mem s)"

definition cgroup_dir :: "int \<Rightarrow> string" where
  "cgroup_dir pid = ''/sys/fs/cgroup/microbox-'' @ show_int pid"

definition cgroup_mkdir ::
  "world \<Rightarrow> int \<Rightarrow> double \<Rightarrow> 64 word \<Rightarrow> kstate \<Rightarrow> int outcome \<times> kstate" where
  "cgroup_mkdir w pid cpus mem s =
     (let cg_path = cgroup_dir pid;
          (r, s1) = mkdir_safe w cg_path 493 s in
      if r = - 1 then (Return (- errno s1), s1)
      else cgroup_cpu w pid cg_path cpus mem s1)"

definition setup_cgroup_limits ::
  "world \<Rightarrow> int \<Rightarrow> double \<Rightarrow> 64 word \<Rightarrow> kstate \<Rightarrow> int outcome \<times> kstate" where
  "setup_cgroup_limits w pid cpus mem s =
     (let ctl = ''/sys/fs/cgroup/cgroup.subtree_control'';
          (fd, s1) = sys w (Open ctl {O_WRONLY}) s in
      if fd \<ge> 0 then
        let (n, s2) = sys w (Write (File ctl) ''+memory'') s1 in
        if n < 0 \<and> errno s2 \<noteq> errno_val EBUSY then (Return (- errno s2), s2)
        else
          let (n2, s3) = sys w (Write (File ctl) ''+cpu'') s2 in
          if n2 < 0 \<and> errno s3 \<noteq> errno_val EBUSY then (Return (- errno s3), s3)
          else
            let (c, s4) = sys w (Close (File ctl)) s3 in
            cgroup_mkdir w pid cpus mem s4
      else cgroup_mkdir w pid cpus mem s1)"

section \<open>sandbox.h and net.h: the options\<close>

datatype mnt_mode = MNT_RO | MNT_RW

datatype fs_mode = FS_TMPFS | FS_HOST | FS_ROOTFS

datatype net_mode = NET_NONE | NET_HOST | NET_PRIVATE | NET_BRIDGE | NET_INVALID

record mount_spec =
  host :: string
  dest :: string
  mode :: mnt_mode

text \<open>
  \<^verbatim>\<open>sandbox_options_t\<close>.  Pointers that may be NULL are options; the two flags, which
  the parser sets to 0 or 1, are booleans; an array with its length is a list.
\<close>

record sandbox_options =
  fs_mode :: fs_mode
  net_mode :: net_mode
  rootfs :: "string option"
  hostname :: "string option"
  cpus :: double
  memory :: "64 word"
  mounts :: "mount_spec list"
  mount_proc :: bool
  mount_dev :: bool
  env :: "(string \<times> string) list option"
  syscalls_allow :: "string list"
  syscalls_deny :: "string list"
  cmd :: "string list"

record sandbox_process =
  pidfd :: int
  pid :: int

record overlayfs =
  lowerdir :: string
  upperdir :: string
  workdir :: string
  mergedir :: string

section \<open>fs.c: the filesystem builder\<close>

definition dev_dirs :: "string list" where
  "dev_dirs = [''/dev/null'', ''/dev/zero'', ''/dev/random'', ''/dev/urandom'', ''/dev/tty'']"

definition PATH_MAX :: nat where
  "PATH_MAX = 4096"

text \<open>\<^verbatim>\<open>snprintf\<close> into a buffer of the given size keeps at most size - 1 characters.\<close>

definition snprintf_buf :: "nat \<Rightarrow> string \<Rightarrow> string" where
  "snprintf_buf cap str = take (cap - 1) str"

definition path_join :: "string \<Rightarrow> string \<Rightarrow> string" where
  "path_join path1 path2 = path1 @ ''/'' @ path2"

text \<open>
  \<^verbatim>\<open>dirname\<close> of the C library: trailing slashes are dropped, then the last component,
  then the slashes before it.
\<close>

definition strip_slashes :: "string \<Rightarrow> string" where
  "strip_slashes p = rev (dropWhile (\<lambda>c. c = CHR ''/'') (rev p))"

definition dirname :: "string \<Rightarrow> string" where
  "dirname path =
     (let p1 = strip_slashes path;
          d0 = rev (dropWhile (\<lambda>c. c \<noteq> CHR ''/'') (rev p1));
          d = strip_slashes d0
      in if p1 = [] then (if path = [] then ''.'' else ''/'')
         else if d0 = [] then ''.''
         else if d = [] then ''/''
         else d)"

text \<open>
  \<^verbatim>\<open>microbox_bind_mount\<close>.  The two \<^verbatim>\<open>mount\<close> calls that end the function are
  \<open>bind_mount_mounts\<close>.  The pointers the function tests against NULL are strings here.
\<close>

definition bind_mount_mounts :: "world \<Rightarrow> mount_spec \<Rightarrow> string \<Rightarrow> kstate \<Rightarrow> int \<times> kstate" where
  "bind_mount_mounts w spec target s =
     (let (r, s1) = sys w (Mount (Some (host spec)) target None {MS_BIND, MS_REC} None) s in
      if r < 0 then (- 1, s1)
      else if mode spec = MNT_RO then
        (let (r2, s2) =
               sys w (Mount None target None {MS_BIND, MS_REMOUNT, MS_RDONLY, MS_NOSUID} None) s1 in
         if r2 < 0 then (- 1, s2) else (0, s2))
      else (0, s1))"

definition microbox_bind_mount :: "world \<Rightarrow> string \<Rightarrow> mount_spec \<Rightarrow> kstate \<Rightarrow> int \<times> kstate" where
  "microbox_bind_mount w base spec s =
     (let target = snprintf_buf PATH_MAX (base @ dest spec);
          (r, s1) = sys w (Stat (host spec)) s in
      if r < 0 then (- 1, s1)
      else
        let ft = st_type w (trace s) (host spec) in
        if ft = S_IFDIR then
          (let (r2, s2) = mkdirp w target s1 in
           if r2 < 0 then (- 1, s2) else bind_mount_mounts w spec target s2)
        else if ft = S_IFREG \<or> ft = S_IFCHR \<or> ft = S_IFBLK then
          (let (r2, s2) = mkdirp w (dirname target) s1 in
           if r2 < 0 then (- 1, s2)
           else
             let (fd, s3) = sys w (Open target {O_CREAT}) s2 in
             if fd < 0 then (- 1, s3)
             else
               let (c, s4) = sys w (Close (File target)) s3 in
               bind_mount_mounts w spec target s4)
        else (- 1, s1))"

definition microsandbox_create_tmpfs :: "world \<Rightarrow> string \<Rightarrow> kstate \<Rightarrow> int \<times> kstate" where
  "microsandbox_create_tmpfs w path s =
     (let (r, s1) = mkdir_safe w path 493 s in
      if r < 0 then (- 1, s1)
      else
        let (r2, s2) =
              sys w (Mount (Some ''tmpfs'') path (Some ''tmpfs'') {MS_NOSUID, MS_NODEV}
                       (Some ''mode=700,size=512m'')) s1 in
        if r2 < 0 then (- 1, s2) else (0, s2))"

definition microsandbox_create_overlayfs ::
  "world \<Rightarrow> string \<Rightarrow> string \<Rightarrow> kstate \<Rightarrow> overlayfs option \<times> kstate" where
  "microsandbox_create_overlayfs w src mountpoint s =
     (let fs = \<lparr>lowerdir = src,
                upperdir = path_join mountpoint ''upper'',
                workdir = path_join mountpoint ''work'',
                mergedir = path_join mountpoint ''merged''\<rparr>;
          (fd, s1) = sys w (Open mountpoint {O_DIRECTORY, O_RDONLY, O_CLOEXEC}) s in
      if fd < 0 then (None, s1)
      else
        let (r1, s2) = sys w (Mkdirat mountpoint ''upper'' 493) s1 in
        if r1 < 0 then (let (c, s3) = sys w (Close (File mountpoint)) s2 in (None, s3))
        else
          let (r2, s3) = sys w (Mkdirat mountpoint ''work'' 493) s2 in
          if r2 < 0 then (let (c, s4) = sys w (Close (File mountpoint)) s3 in (None, s4))
          else
            let (r3, s4) = sys w (Mkdirat mountpoint ''merged'' 493) s3 in
            if r3 < 0 then (let (c, s5) = sys w (Close (File mountpoint)) s4 in (None, s5))
            else
              let (c, s5) = sys w (Close (File mountpoint)) s4;
                  opt = ''lowerdir='' @ src @ '',upperdir='' @ upperdir fs
                          @ '',workdir='' @ workdir fs;
                  (rm, s6) =
                    sys w (Mount (Some ''overlay'') (mergedir fs) (Some ''overlay'') {} (Some opt)) s5 in
              if rm < 0 then (None, s6) else (Some fs, s6))"

definition microbox_bind_mount_proc :: "world \<Rightarrow> string \<Rightarrow> kstate \<Rightarrow> int \<times> kstate" where
  "microbox_bind_mount_proc w base s =
     (let target = snprintf_buf PATH_MAX (base @ ''/proc'');
          (r, s1) = mkdirp w target s in
      if r < 0 then (- errno s1, s1)
      else
        let (r2, s2) =
              sys w (Mount (Some ''proc'') target (Some ''proc'') {MS_NOSUID, MS_NOEXEC, MS_NODEV}
                       None) s1 in
        if r2 < 0 then (- errno s2, s2) else (0, s2))"

text \<open>The loop over the device allowlist: the result of each bind mount is dropped.\<close>

fun bind_dev_dirs :: "world \<Rightarrow> string \<Rightarrow> string list \<Rightarrow> kstate \<Rightarrow> kstate" where
  "bind_dev_dirs w base [] s = s"
| "bind_dev_dirs w base (d # ds) s =
     (let (r, s1) = microbox_bind_mount w base \<lparr>host = d, dest = d, mode = MNT_RW\<rparr> s in
      bind_dev_dirs w base ds s1)"

definition shm_mount :: "string \<Rightarrow> syscall" where
  "shm_mount base =
     Mount (Some ''tmpfs'') (snprintf_buf PATH_MAX (base @ ''/dev/shm'')) (Some ''tmpfs'')
       {MS_NOSUID, MS_NOEXEC} (Some ''mode=1777,size=64m'')"

definition microbox_bind_mount_dev :: "world \<Rightarrow> string \<Rightarrow> kstate \<Rightarrow> int \<times> kstate" where
  "microbox_bind_mount_dev w base s =
     (let target = snprintf_buf PATH_MAX (base @ ''/dev'');
          (r, s1) = mkdirp w target s in
      if r < 0 then (- errno s1, s1)
      else
        let (r2, s2) =
              sys w (Mount (Some ''tmpfs'') target (Some ''tmpfs'') {MS_NOSUID, MS_NOEXEC}
                       (Some ''mode=755,size=2m'')) s1 in
        if r2 < 0 then (- errno s2, s2)
        else
          let pts = snprintf_buf PATH_MAX (base @ ''/dev/pts'');
              (r3, s3) = mkdirp w pts s2 in
          if r3 < 0 then (- errno s3, s3)
          else
            let (r4, s4) =
                  sys w (Mount (Some ''devpts'') pts (Some ''devpts'') {MS_NOSUID, MS_NOEXEC}
                           (Some ''newinstance,ptmxmode=0666,mode=620'')) s3 in
            if r4 < 0 \<and> errno s4 \<noteq> errno_val EINVAL then (- errno s4, s4)
            else
              let ptmx = snprintf_buf PATH_MAX (base @ ''/dev/ptmx'');
                  (u, s5) = sys w (Unlink ptmx) s4;
                  (r6, s6) = sys w (Symlink ''pts/ptmx'' ptmx) s5 in
              if r6 < 0 then (- errno s6, s6)
              else
                let shm = snprintf_buf PATH_MAX (base @ ''/dev/shm'');
                    (r7, s7) = mkdirp w shm s6 in
                if r7 < 0 then (- errno s7, s7)
                else
                  let (r8, s8) = sys w (shm_mount base) s7 in
                  if r8 < 0 then (- errno s8, s8)
                  else (0, bind_dev_dirs w base dev_dirs s8))"

text \<open>The loop over the user's mounts stops at the first failure.\<close>

fun bind_user_mounts :: "world \<Rightarrow> string \<Rightarrow> mount_spec list \<Rightarrow> kstate \<Rightarrow> int \<times> kstate" where
  "bind_user_mounts w base [] s = (0, s)"
| "bind_user_mounts w base (m # ms) s =
     (let (r, s1) = microbox_bind_mount w base m s in
      if r < 0 then (- 1, s1) else bind_user_mounts w base ms s1)"

text \<open>
  Both \<^verbatim>\<open>microsandbox_setup_rootfs\<close> and \<^verbatim>\<open>microsandbox_setup_tmpfs\<close> end with the same
  statements, from \<^verbatim>\<open>chdir\<close> into the new root to \<^verbatim>\<open>rmdir\<close> of the old one; they are
  \<open>pivot_sequence\<close>.  Mode 448 is octal 0700.
\<close>

definition pivot_root_call :: syscall where
  "pivot_root_call = PivotRoot ''.'' ''./.old_root''"

definition pivot_sequence :: "world \<Rightarrow> string \<Rightarrow> kstate \<Rightarrow> int \<times> kstate" where
  "pivot_sequence w newroot s =
     (let (r1, s1) = sys w (Chdir newroot) s in
      if r1 < 0 then (- errno s1, s1)
      else
        let (r2, s2) = sys w (Mkdir ''.old_root'' 448) s1 in
        if r2 < 0 then (- errno s2, s2)
        else
          let (r3, s3) = sys w pivot_root_call s2 in
          if r3 < 0 then (- errno s3, s3)
          else
            let (r4, s4) = sys w (Chdir ''/'') s3 in
            if r4 < 0 then (- errno s4, s4)
            else
              let (r5, s5) = sys w (Umount2_detach ''/.old_root'') s4 in
              if r5 < 0 then (- errno s5, s5)
              else
                let (r6, s6) = sys w (Rmdir ''/.old_root'') s5 in
                if r6 < 0 then (- errno s6, s6) else (0, s6))"

definition private_root_mount :: syscall where
  "private_root_mount = Mount None ''/'' None {MS_PRIVATE, MS_REC} None"

text \<open>
  \<^verbatim>\<open>microsandbox_setup_rootfs\<close>, from its \<^verbatim>\<open>/dev\<close> block, from its \<^verbatim>\<open>/proc\<close> block, and
  whole.  \<open>the (rootfs opts)\<close> is read only after \<open>is_directory\<close> has rejected NULL.
\<close>

definition setup_rootfs_dev :: "world \<Rightarrow> sandbox_options \<Rightarrow> string \<Rightarrow> kstate \<Rightarrow> int \<times> kstate" where
  "setup_rootfs_dev w opts merged s =
     (if mount_dev opts then
        (let (r, s1) = microbox_bind_mount_dev w merged s in
         if r < 0 then (- errno s1, s1) else pivot_sequence w merged s1)
      else pivot_sequence w merged s)"

definition setup_rootfs_proc :: "world \<Rightarrow> sandbox_options \<Rightarrow> string \<Rightarrow> kstate \<Rightarrow> int \<times> kstate" where
  "setup_rootfs_proc w opts merged s =
     (if mount_proc opts then
        (let (r, s1) = microbox_bind_mount_proc w merged s in
         if r < 0 then (- errno s1, s1) else setup_rootfs_dev w opts merged s1)
      else setup_rootfs_dev w opts merged s)"

definition microsandbox_setup_rootfs :: "world \<Rightarrow> sandbox_options \<Rightarrow> kstate \<Rightarrow> int \<times> kstate" where
  "microsandbox_setup_rootfs w opts s =
     (let (r0, s0) = sys w private_root_mount s in
      if r0 < 0 then (- 1, s0)
      else
        let (isdir, s1) = is_directory w (rootfs opts) s0 in
        if isdir = 0 then (- 1, s1\<lparr>errno := errno_val ENOENT\<rparr>)
        else
          let (r2, s2) = microsandbox_create_tmpfs w ''/box'' s1 in
          if r2 < 0 then (- 1, s2)
          else
            let (r3, s3) = sys w (Mkdir ''/box/overlay'' 493) s2 in
            if r3 < 0 then (- 1, s3)
            else
              let (fs, s4) = microsandbox_create_overlayfs w (the (rootfs opts)) ''/box/overlay'' s3 in
              case fs of
                None \<Rightarrow> (- 1, s4)
              | Some ofs \<Rightarrow>
                  let (r5, s5) = bind_user_mounts w (mergedir ofs) (mounts opts) s4 in
                  if r5 < 0 then (- 1, s5)
                  else setup_rootfs_proc w opts (mergedir ofs) s5)"

text \<open>\<^verbatim>\<open>microsandbox_setup_tmpfs\<close>, from the user mounts, from \<^verbatim>\<open>/dev\<close>, and whole.\<close>

definition setup_tmpfs_mounts :: "world \<Rightarrow> sandbox_options \<Rightarrow> string \<Rightarrow> kstate \<Rightarrow> int \<times> kstate" where
  "setup_tmpfs_mounts w opts base s =
     (let (r, s1) = bind_user_mounts w base (mounts opts) s in
      if r < 0 then (- 1, s1) else pivot_sequence w base s1)"

definition setup_tmpfs_dev :: "world \<Rightarrow> sandbox_options \<Rightarrow> string \<Rightarrow> kstate \<Rightarrow> int \<times> kstate" where
  "setup_tmpfs_dev w opts base s =
     (if mount_dev opts then
        (let (r, s1) = microbox_bind_mount_dev w base s in
         if r < 0 then (- 1, s1) else setup_tmpfs_mounts w opts base s1)
      else setup_tmpfs_mounts w opts base s)"

definition microsandbox_setup_tmpfs :: "world \<Rightarrow> sandbox_options \<Rightarrow> kstate \<Rightarrow> int \<times> kstate" where
  "microsandbox_setup_tmpfs w opts s =
     (let base = ''/box'';
          (r0, s0) = sys w private_root_mount s in
      if r0 < 0 then (- 1, s0)
      else
        let (r1, s1) = microsandbox_create_tmpfs w base s0 in
        if r1 < 0 then (- 1, s1)
        else if mount_proc opts then
          (let (r2, s2) = microbox_bind_mount_proc w base s1 in
           if r2 < 0 then (- 1, s2) else setup_tmpfs_dev w opts base s2)
        else setup_tmpfs_dev w opts base s1)"

definition microsandbox_setup_fs :: "world \<Rightarrow> sandbox_options \<Rightarrow> kstate \<Rightarrow> int \<times> kstate" where
  "microsandbox_setup_fs w opts s =
     (case fs_mode opts of
        FS_HOST \<Rightarrow> (0, s)
      | FS_TMPFS \<Rightarrow> microsandbox_setup_tmpfs w opts s
      | FS_ROOTFS \<Rightarrow> microsandbox_setup_rootfs w opts s)"

section \<open>seccomp.c\<close>

definition docker_default_denylist :: "string list" where
  "docker_default_denylist =
     [''create_module'', ''init_module'', ''finit_module'', ''delete_module'',
      ''kexec_load'', ''kexec_file_load'',
      ''add_key'', ''request_key'', ''keyctl'',
      ''bpf'',
      ''ptrace'', ''process_vm_readv'', ''process_vm_writev'',
      ''adjtimex'', ''clock_adjtime'', ''settimeofday'', ''stime'',
      ''reboot'', ''quotactl'', ''nfsservctl'', ''sysfs'', ''_sysctl'',
      ''personality'',
      ''mount'', ''umount'', ''umount2'', ''pivot_root'',
      ''setns'', ''unshare'',
      ''open_by_handle_at'',
      ''perf_event_open'', ''fanotify_init'',
      ''name_to_handle_at'', ''lookup_dcookie'',
      ''userfaultfd'', ''vm86'', ''vm86old'', ''iopl'', ''ioperm'',
      ''set_mempolicy'', ''move_pages'',
      ''kcmp'',
      ''acct'', ''clone3'']"

fun name_in_list :: "string \<Rightarrow> string list \<Rightarrow> int" where
  "name_in_list name [] = 0"
| "name_in_list name (x # xs) = (if name = x then 1 else name_in_list name xs)"

text \<open>
  The loop of \<^verbatim>\<open>microbox_setup_seccomp\<close> over the deny array.  \<open>None\<close> for the allow
  array is the NULL pointer.  \<^verbatim>\<open>seccomp_syscall_resolve_name\<close> is the world's
  \<open>resolve_name\<close>, \<open>None\<close> standing for \<^verbatim>\<open>__NR_SCMP_ERROR\<close>.
\<close>

fun seccomp_add_rules ::
  "world \<Rightarrow> string list \<Rightarrow> string list option \<Rightarrow> kstate \<Rightarrow> int \<times> kstate" where
  "seccomp_add_rules w [] allow_ovr s = (0, s)"
| "seccomp_add_rules w (name # deny) allow_ovr s =
     (if name = [] then seccomp_add_rules w deny allow_ovr s
      else if allow_ovr \<noteq> None \<and> name_in_list name (the allow_ovr) \<noteq> 0 then
        seccomp_add_rules w deny allow_ovr s
      else
        case resolve_name w name of
          None \<Rightarrow> seccomp_add_rules w deny allow_ovr s
        | Some nr \<Rightarrow>
            let (rc, s1) = sys w (Seccomp_rule_add (SCMP_ACT_ERRNO ENOSYS) nr) s in
            if rc < 0 then (rc, s1) else seccomp_add_rules w deny allow_ovr s1)"

definition microbox_setup_seccomp ::
  "world \<Rightarrow> string list \<Rightarrow> string list option \<Rightarrow> kstate \<Rightarrow> int \<times> kstate" where
  "microbox_setup_seccomp w deny allow_ovr s =
     (let (ctx, s1) = sys w (Seccomp_init SCMP_ACT_ALLOW) s in
      if ctx < 0 then (- errno_val ENOMEM, s1)
      else
        let (rc, s2) = seccomp_add_rules w deny allow_ovr s1 in
        if rc < 0 then
          (let (c, s3) = sys w Seccomp_release s2 in (- errno s3, s3))
        else
          let (rc2, s3) = sys w Seccomp_load s2 in
          if rc2 < 0 then
            (let (c, s4) = sys w Seccomp_release s3 in (- errno s4, s4))
          else
            let (c, s4) = sys w Seccomp_release s3 in (0, s4))"

text \<open>
  What the kernel holds after the calls of a trace, as libseccomp documents them:
  \<^verbatim>\<open>seccomp_init\<close> starts a filter with a default action, each successful
  \<^verbatim>\<open>seccomp_rule_add\<close> adds a rule, a successful \<^verbatim>\<open>seccomp_load\<close> installs the filter.
\<close>

record scmp_filter =
  default_action :: scmp_action
  rules :: "(int \<times> scmp_action) list"

fun run_seccomp ::
  "event list \<Rightarrow> scmp_filter option \<Rightarrow> scmp_filter option \<Rightarrow> scmp_filter option" where
  "run_seccomp [] ctx installed = installed"
| "run_seccomp ((c, \<rho>) # evs) ctx installed =
     (case (c, \<rho>) of
        (Seccomp_init a, Ok n) \<Rightarrow>
          run_seccomp evs (Some \<lparr>default_action = a, rules = []\<rparr>) installed
      | (Seccomp_rule_add a nr, Ok n) \<Rightarrow>
          run_seccomp evs (map_option (\<lambda>f. f\<lparr>rules := rules f @ [(nr, a)]\<rparr>) ctx) installed
      | (Seccomp_load, Ok n) \<Rightarrow> run_seccomp evs ctx ctx
      | (Seccomp_release, r) \<Rightarrow> run_seccomp evs None installed
      | _ \<Rightarrow> run_seccomp evs ctx installed)"

definition installed_filter :: "event list \<Rightarrow> scmp_filter option" where
  "installed_filter evs = run_seccomp evs None None"

text \<open>The action of a filter on a system call number: its rule if it has one, else the default.\<close>

definition filter_action :: "scmp_filter \<Rightarrow> int \<Rightarrow> scmp_action" where
  "filter_action f nr =
     (case map_of (rules f) nr of None \<Rightarrow> default_action f | Some a \<Rightarrow> a)"

section \<open>netns.c and netlink.c: interface names and teardown\<close>

text \<open>C's \<^verbatim>\<open>%\<close> truncates towards zero.\<close>

definition c_rem :: "int \<Rightarrow> int \<Rightarrow> int" where
  "c_rem a b = sgn a * (\<bar>a\<bar> mod \<bar>b\<bar>)"

definition MICROBOX_DEFAULT_BRIDGE_IP_SUBNET :: "32 word" where
  "MICROBOX_DEFAULT_BRIDGE_IP_SUBNET = 0xAC140000"

text \<open>The addresses are kept in host byte order; \<^verbatim>\<open>htonl\<close> only permutes their bytes.\<close>

record netns_config =
  bridge_name :: string
  veth_host :: string
  veth_container :: string
  container_ip :: "32 word"
  bridge_ip :: "32 word"
  prefix_len :: nat

definition generate_interface_names :: "int \<Rightarrow> int \<times> netns_config" where
  "generate_interface_names container_id =
     (let interface_id = c_rem container_id 254 in
      (0, \<lparr>bridge_name = snprintf_buf 16 ''microbox0'',
           veth_host = snprintf_buf 16 (''mbx'' @ show_int interface_id @ ''h''),
           veth_container = snprintf_buf 16 (''mbx'' @ show_int interface_id @ ''c''),
           container_ip = MICROBOX_DEFAULT_BRIDGE_IP_SUBNET + word_of_int interface_id + 2,
           bridge_ip = MICROBOX_DEFAULT_BRIDGE_IP_SUBNET + 1,
           prefix_len = 16\<rparr>))"

record netlink_handle =
  nl_fd :: int
  nl_seq :: "32 word"

definition netlink_open :: "world \<Rightarrow> kstate \<Rightarrow> (int \<times> netlink_handle) \<times> kstate" where
  "netlink_open w s =
     (let (fd, s1) = sys w Nl_socket s in
      if fd < 0 then ((- 1, \<lparr>nl_fd = fd, nl_seq = 0\<rparr>), s1)
      else
        let (r, s2) = sys w Nl_bind s1 in
        if r < 0 then
          (let (c, s3) = sys w (Close NlSock) s2 in ((- 1, \<lparr>nl_fd = fd, nl_seq = 0\<rparr>), s3))
        else ((0, \<lparr>nl_fd = fd, nl_seq = 1\<rparr>), s2))"

definition netlink_close :: "world \<Rightarrow> netlink_handle \<Rightarrow> kstate \<Rightarrow> netlink_handle \<times> kstate" where
  "netlink_close w h s =
     (if nl_fd h \<ge> 0 then
        (let (c, s1) = sys w (Close NlSock) s in (h\<lparr>nl_fd := - 1\<rparr>, s1))
      else (h, s))"

text \<open>
  \<^verbatim>\<open>if_nametoindex\<close> returns an unsigned index, 0 when there is no such interface;
  the program stores it in an \<^verbatim>\<open>int\<close>.
\<close>

definition netlink_get_interface_index :: "world \<Rightarrow> string \<Rightarrow> kstate \<Rightarrow> int \<times> kstate" where
  "netlink_get_interface_index w name s =
     (let (r, s1) = sys w (If_nametoindex name) s;
          index = (if r < 0 then 0 else sint (word_of_int r :: 32 word)) in
      if index = 0 then (- 1, s1\<lparr>errno := errno_val ENODEV\<rparr>) else (index, s1))"

definition RTM_DELLINK :: nat where
  "RTM_DELLINK = 17"

definition netlink_send_request ::
  "world \<Rightarrow> netlink_handle \<Rightarrow> nat \<Rightarrow> 32 word \<Rightarrow> int \<Rightarrow> kstate \<Rightarrow> int \<times> kstate" where
  "netlink_send_request w h msg_type seq ifindex s =
     (let (r, s1) = sys w (Nl_sendmsg msg_type seq ifindex) s in
      if r < 0 then (- 1, s1) else (0, s1))"

definition netlink_recv_response :: "world \<Rightarrow> netlink_handle \<Rightarrow> kstate \<Rightarrow> int \<times> kstate" where
  "netlink_recv_response w h s =
     (let (bytes, s1) = sys w Nl_recvmsg s in
      if bytes < 0 then (- 1, s1)
      else if nl_truncated w (trace s) then (- 1, s1\<lparr>errno := errno_val EMSGSIZE\<rparr>)
      else (bytes, s1))"

definition netlink_delete_interface ::
  "world \<Rightarrow> netlink_handle \<Rightarrow> string \<Rightarrow> kstate \<Rightarrow> (int \<times> netlink_handle) \<times> kstate" where
  "netlink_delete_interface w h name s =
     (let (ifindex, s1) = netlink_get_interface_index w name s in
      if ifindex < 0 then ((0, h), s1)
      else
        let seq = nl_seq h;
            h' = h\<lparr>nl_seq := nl_seq h + 1\<rparr>;
            (r, s2) = netlink_send_request w h' RTM_DELLINK seq ifindex s1 in
        if r < 0 then ((- 1, h'), s2)
        else
          let (bytes, s3) = netlink_recv_response w h' s2 in
          if bytes < 0 then ((- 1, h'), s3)
          else
            case nl_msg w (trace s2) of
              Nl_error err \<Rightarrow>
                if err \<noteq> 0 then ((- 1, h'), s3\<lparr>errno := - err\<rparr>) else ((0, h'), s3)
            | Nl_other \<Rightarrow> ((0, h'), s3))"

definition microbox_cleanup_network_interfaces :: "world \<Rightarrow> int \<Rightarrow> kstate \<Rightarrow> int \<times> kstate" where
  "microbox_cleanup_network_interfaces w container_id s =
     (let (g, config) = generate_interface_names container_id in
      if g \<noteq> 0 then (- 1, s)
      else
        let ((r, h), s1) = netlink_open w s in
        if r \<noteq> 0 then (- 1, s1)
        else
          let ((d, h2), s2) = netlink_delete_interface w h (veth_host config) s1;
              ret = (if d \<noteq> 0 then - 1 else 0);
              (h3, s3) = netlink_close w h2 s2 in
          (ret, s3))"

section \<open>sandbox.c: spawn and wait\<close>

definition merge_syscall_lists :: "sandbox_options \<Rightarrow> int \<times> string list \<times> string list option" where
  "merge_syscall_lists opts =
     (if length (syscalls_deny opts) = 0 \<and> length (syscalls_allow opts) = 0 then
        (0, docker_default_denylist, None)
      else
        (0, docker_default_denylist @ syscalls_deny opts, Some (syscalls_allow opts)))"

definition safe_env :: "(string \<times> string) list" where
  "safe_env =
     [(''PATH'', ''/usr/bin:/bin:/usr/sbin:/sbin:/usr/local/bin''),
      (''HOME'', ''/root''),
      (''TERM'', ''xterm'')]"

text \<open>\<^verbatim>\<open>merge\<close>: the second loop, which overrides a name already present or appends.\<close>

fun env_override :: "(string \<times> string) list \<Rightarrow> string \<times> string \<Rightarrow> (string \<times> string) list" where
  "env_override [] nv = [nv]"
| "env_override ((n, v) # out) nv =
     (if n = fst nv then (n, snd nv) # out else (n, v) # env_override out nv)"

definition merge_env :: "(string \<times> string) list \<Rightarrow> (string \<times> string) list \<Rightarrow> (string \<times> string) list" where
  "merge_env env1 env2 = foldl env_override env1 env2"

definition flatten_env :: "(string \<times> string) list \<Rightarrow> string list" where
  "flatten_env e = map (\<lambda>(n, v). n @ ''='' @ v) e"

definition clone_flags :: "sandbox_options \<Rightarrow> clone_flag set" where
  "clone_flags opts =
     {CLONE_NEWUSER, CLONE_NEWPID, CLONE_NEWUTS, CLONE_NEWIPC, CLONE_PIDFD,
      CLONE_NEWCGROUP, CLONE_NEWTIME}
     \<union> (if net_mode opts \<noteq> NET_HOST then {CLONE_NEWNET} else {})
     \<union> (if fs_mode opts \<noteq> FS_HOST then {CLONE_NEWNS} else {})"

text \<open>
  The child branch of \<^verbatim>\<open>microbox_sandbox_spawn\<close> (\<^verbatim>\<open>pid == 0\<close>), written from each of
  its steps onwards.  The call of \<^verbatim>\<open>microbox_drop_capabilities\<close>, the only function of
  the program that calls \<^verbatim>\<open>prctl\<close>, is commented out in the source and so absent here.
  \<^verbatim>\<open>microbox_configure_container_network\<close> is one event whose result the world gives.
\<close>

definition child_exec :: "world \<Rightarrow> sandbox_options \<Rightarrow> kstate \<Rightarrow> int outcome \<times> kstate" where
  "child_exec w opts s =
     (let merged_env = (case env opts of None \<Rightarrow> safe_env | Some e \<Rightarrow> merge_env safe_env e);
          flat_env = flatten_env merged_env;
          (r, s1) = sys w (Execve (hd (cmd opts)) (cmd opts) flat_env) s in
      if r < 0 then (Exited 127, s1) else (Execed, s1))"

definition child_seccomp :: "world \<Rightarrow> sandbox_options \<Rightarrow> kstate \<Rightarrow> int outcome \<times> kstate" where
  "child_seccomp w opts s =
     (let (m, final_denylist, final_allowlist) = merge_syscall_lists opts in
      if m < 0 then (Exited 127, s)
      else
        let (r, s1) = microbox_setup_seccomp w final_denylist final_allowlist s in
        if r < 0 then (Exited 127, s1) else child_exec w opts s1)"

definition child_network :: "world \<Rightarrow> sandbox_options \<Rightarrow> kstate \<Rightarrow> int outcome \<times> kstate" where
  "child_network w opts s =
     (if net_mode opts = NET_BRIDGE then
        (let (g, net_config) = generate_interface_names (parent_pid w) in
         if g \<noteq> 0 then (Exited 127, s)
         else
           let (r, s1) = sys w (Configure_container_network (veth_container net_config)) s in
           if r \<noteq> 0 then (Exited 127, s1) else child_seccomp w opts s1)
      else child_seccomp w opts s)"

definition child_fs :: "world \<Rightarrow> sandbox_options \<Rightarrow> kstate \<Rightarrow> int outcome \<times> kstate" where
  "child_fs w opts s =
     (let (r, s1) = microsandbox_setup_fs w opts s in
      if r < 0 then (Exited 127, s1) else child_network w opts s1)"

definition spawn_child :: "world \<Rightarrow> sandbox_options \<Rightarrow> kstate \<Rightarrow> int outcome \<times> kstate" where
  "spawn_child w opts s =
     (let (g, s1) = sys w (Read PipeRead 1) s in
      if g < 0 then (Exited 127, s1)
      else
        let (c, s2) = sys w (Close PipeRead) s1 in
        case hostname opts of
          None \<Rightarrow> child_fs w opts s2
        | Some h \<Rightarrow>
            let (r, s3) = sys w (Sethostname h) s2 in
            if r < 0 then (Exited 127, s3) else child_fs w opts s3)"

text \<open>
  The parent branch, from the cgroup step and from the bridge step onwards.  The two
  bridge functions are one event each.
\<close>

definition parent_cgroup ::
  "world \<Rightarrow> sandbox_options \<Rightarrow> int \<Rightarrow> kstate \<Rightarrow> int outcome \<times> kstate" where
  "parent_cgroup w opts child s =
     (case setup_cgroup_limits w child (cpus opts) (memory opts) s of
        (Return r, s1) \<Rightarrow>
          if r < 0 then (Return (- errno s1), s1)
          else
            let (n, s2) = sys w (Write PipeWrite ''X'') s1 in
            if n < 0 then (Exited 127, s2)
            else
              let (c, s3) = sys w (Close PipeWrite) s2 in (Return 0, s3)
      | (out, s1) \<Rightarrow> (out, s1))"

definition parent_bridge ::
  "world \<Rightarrow> sandbox_options \<Rightarrow> int \<Rightarrow> kstate \<Rightarrow> int outcome \<times> kstate" where
  "parent_bridge w opts child s =
     (if net_mode opts = NET_BRIDGE then
        (if real_uid w \<noteq> 0 then (Return (- 1), s)
         else
           let (g, net_config) = generate_interface_names child in
           if g \<noteq> 0 then (Return (- 1), s)
           else
             let (r, s1) =
                   sys w (Setup_bridge_network (bridge_name net_config) (veth_host net_config)) s in
             if r \<noteq> 0 then (Return (- 1), s1)
             else
               let (r2, s2) =
                     sys w (Move_veth_to_container (veth_container net_config) child) s1 in
               if r2 \<noteq> 0 then (Return (- 1), s2) else parent_cgroup w opts child s2)
      else parent_cgroup w opts child s)"

text \<open>
  \<^verbatim>\<open>microbox_sandbox_spawn\<close> for non-NULL arguments.  The world's answer to \<^verbatim>\<open>clone3\<close>
  tells the branch: an error, 0 in the child, the child's pid in the parent.  The
  function also yields the process record, whose \<open>pid\<close> the parent sets.
\<close>

definition microbox_sandbox_spawn ::
  "world \<Rightarrow> sandbox_options \<Rightarrow> sandbox_process \<Rightarrow> kstate
     \<Rightarrow> (int outcome \<times> sandbox_process) \<times> kstate" where
  "microbox_sandbox_spawn w opts process s =
     (let (p, s1) = sys w Pipe s in
      if p < 0 then ((Exited 127, process), s1)
      else
        let (child, s2) = sys w (Clone3 (clone_flags opts)) s1 in
        if child < 0 then
          (let (c1, s3) = sys w (Close PipeRead) s2;
               (c2, s4) = sys w (Close PipeWrite) s3 in
           ((Return (- errno s4), process), s4))
        else if child = 0 then
          (let (out, s3) = spawn_child w opts s2 in ((out, process), s3))
        else
          let process' = process\<lparr>pid := child\<rparr>;
              (r, s3) = setup_uid_gid_map w child s2 in
          if r < 0 then ((Return (- errno s3), process'), s3)
          else
            let (out, s4) = parent_bridge w opts child s3 in ((out, process'), s4))"

text \<open>\<^verbatim>\<open>microbox_sandbox_wait\<close>; \<open>None\<close> is the NULL pointer.\<close>

definition microbox_sandbox_wait :: "world \<Rightarrow> sandbox_process option \<Rightarrow> kstate \<Rightarrow> int \<times> kstate" where
  "microbox_sandbox_wait w proc s =
     (case proc of
        None \<Rightarrow> (- errno_val EINVAL, s)
      | Some p \<Rightarrow>
          let (r, s1) = sys w (Waitid_pidfd_exited (pidfd p)) s in
          if r = - 1 then (- errno s1, s1)
          else
            let (si_code, si_status) = wait_info w (trace s);
                (c, s2) = microbox_cleanup_network_interfaces w (pid p) s1 in
            if si_code = CLD_EXITED then (si_status, s2)
            else if si_code = CLD_KILLED \<or> si_code = CLD_DUMPED then (128 + si_status, s2)
            else (0, s2))"

section \<open>Vocabulary of the statements\<close>

text \<open>A run that only appends the events \<open>evs\<close> to the trace.\<close>

definition emits :: "kstate \<Rightarrow> kstate \<Rightarrow> event list \<Rightarrow> bool" where
  "emits s s' evs = (trace s' = trace s @ evs)"

text \<open>A run only appends to the trace.\<close>

definition extends :: "kstate \<Rightarrow> kstate \<Rightarrow> bool" where
  "extends s s' = (\<exists>evs. trace s' = trace s @ evs)"

definition is_write :: "syscall \<Rightarrow> bool" where
  "is_write c = (case c of Write f d \<Rightarrow> True | _ \<Rightarrow> False)"

text \<open>
  Identity mapping: the three writes in their order, the map lines being \<open>0 <id> 1\<close>
  and a newline, and what the result of \<^verbatim>\<open>setup_uid_gid_map\<close> says about them.  The
  writes a run made are a prefix of the three; the result is 0 or -1; 0 means that all
  three were made; a write that failed gives -1, and so does a short write of the uid
  or the gid line.
\<close>

definition map_line :: "32 word \<Rightarrow> string" where
  "map_line i = ''0 '' @ show_nat (unat i) @ '' 1'' @ [CHR 0x0A]"

definition id_map_writes :: "world \<Rightarrow> int \<Rightarrow> syscall list" where
  "id_map_writes w child =
     [Write (File (proc_path child ''setgroups'')) ''deny'',
      Write (File (proc_path child ''uid_map'')) (map_line (real_uid w)),
      Write (File (proc_path child ''gid_map'')) (map_line (real_gid w))]"

definition id_map_protocol :: "world \<Rightarrow> int \<Rightarrow> int \<Rightarrow> event list \<Rightarrow> bool" where
  "id_map_protocol w child r evs =
     (prefix (filter is_write (map fst evs)) (id_map_writes w child)
      \<and> (r = 0 \<or> r = - 1)
      \<and> (r = 0 \<longrightarrow> filter is_write (map fst evs) = id_map_writes w child)
      \<and> (\<forall>c e. (c, Err e) \<in> set evs \<and> is_write c \<longrightarrow> r = - 1)
      \<and> (\<forall>c n. (c, Ok n) \<in> set evs \<and> c \<in> set (tl (id_map_writes w child))
             \<and> (\<forall>f d. c = Write f d \<longrightarrow> n \<noteq> length d) \<longrightarrow> r = - 1))"

text \<open>
  The barrier is released by the write of one byte to the pipe.  What the parent does
  after \<^verbatim>\<open>clone3\<close>: the identity mapping first, with result \<open>r\<close>, in which the barrier
  is not released; anything else, the release included, comes after it and only when
  the mapping returned 0.
\<close>

definition barrier_release :: syscall where
  "barrier_release = Write PipeWrite ''X''"

definition released_after_id_map :: "world \<Rightarrow> int \<Rightarrow> event list \<Rightarrow> bool" where
  "released_after_id_map w child evs =
     (\<exists>r mid post. evs = mid @ post
        \<and> id_map_protocol w child r mid
        \<and> barrier_release \<notin> set (map fst mid)
        \<and> (post \<noteq> [] \<longrightarrow> r = 0))"

text \<open>
  Cgroup limits: the writes to files of the container's cgroup directory that the
  claim describes, in the order of the code.  The quota is the floor of the double
  product of \<open>cpus\<close> and the period 100000.
\<close>

definition is_write_under :: "string \<Rightarrow> syscall \<Rightarrow> bool" where
  "is_write_under dir c = (case c of Write (File p) d \<Rightarrow> prefix dir p | _ \<Rightarrow> False)"

definition cpu_quota :: "double \<Rightarrow> nat" where
  "cpu_quota c = nat \<lfloor>dval (dmul c (double_of_nat 100000))\<rfloor>"

definition cgroup_limit_writes :: "int \<Rightarrow> double \<Rightarrow> 64 word \<Rightarrow> syscall list" where
  "cgroup_limit_writes child c m =
     (if dgt_zero c
      then [Write (File (cgroup_dir child @ ''/cpu.max'')) (show_nat (cpu_quota c) @ '' 100000'')]
      else [])
     @ (if m > 0
        then [Write (File (cgroup_dir child @ ''/memory.max'')) (show_nat (unat m)),
              Write (File (cgroup_dir child @ ''/memory.swap.max'')) ''0'']
        else [])
     @ [Write (File (cgroup_dir child @ ''/cgroup.procs'')) (show_int child)]"

text \<open>
  What a run from some point of \<^verbatim>\<open>setup_cgroup_limits\<close> onwards wrote under a directory:
  a prefix of the expected writes, and all of them when the function returns 0.
\<close>

definition wrote_under :: "string \<Rightarrow> syscall list \<Rightarrow> int outcome \<Rightarrow> event list \<Rightarrow> bool" where
  "wrote_under dir ws out evs =
     (prefix (filter (is_write_under dir) (map fst evs)) ws
      \<and> (out = Return 0 \<longrightarrow> filter (is_write_under dir) (map fst evs) = ws))"

text \<open>
  Teardown.  The interface of a container id is \<open>mbx<id % 254>h\<close>.  The answer of
  \<^verbatim>\<open>if_nametoindex\<close> as the program reads it, in an \<^verbatim>\<open>int\<close>: the index of the
  interface when it is positive, and no interface otherwise.
\<close>

definition host_veth_name :: "int \<Rightarrow> string" where
  "host_veth_name container_id = ''mbx'' @ show_int (c_rem container_id 254) @ ''h''"

definition found_index :: "ret \<Rightarrow> int option" where
  "found_index \<rho> =
     (case \<rho> of
        Err e \<Rightarrow> None
      | Ok n \<Rightarrow> if 0 < sint (word_of_int (int n) :: 32 word)
                then Some (sint (word_of_int (int n) :: 32 word)) else None)"

text \<open>
  The request for an interface that has an index: one \<^verbatim>\<open>RTM_DELLINK\<close> message for that
  index, the first of the socket, and the read of the answer when the message was sent;
  the result is 0 only when both succeeded.
\<close>

definition delete_request :: "int \<Rightarrow> int \<Rightarrow> event list \<Rightarrow> bool" where
  "delete_request i rc req =
     ((\<exists>e. req = [(Nl_sendmsg RTM_DELLINK 1 i, Err e)] \<and> rc = - 1)
      \<or> (\<exists>n \<rho>. req = [(Nl_sendmsg RTM_DELLINK 1 i, Ok n), (Nl_recvmsg, \<rho>)]
            \<and> (rc = 0 \<or> rc = - 1) \<and> (rc = 0 \<longrightarrow> (\<exists>m. \<rho> = Ok m))))"

text \<open>
  A run of \<^verbatim>\<open>microbox_cleanup_network_interfaces\<close> for a container id, with its result:
  the netlink socket cannot be opened or bound, and the result is -1; or it is, the
  interface \<open>mbx<id % 254>h\<close> is looked up, and the socket is closed at the end.  In
  between, when the lookup finds no interface nothing is sent and the result is 0;
  when it finds one, the deletion of that index is requested.
\<close>

definition teardown_protocol :: "int \<Rightarrow> int \<Rightarrow> event list \<Rightarrow> bool" where
  "teardown_protocol container_id rc evs =
     ((\<exists>e. evs = [(Nl_socket, Err e)] \<and> rc = - 1)
      \<or> (\<exists>fd e c. evs = [(Nl_socket, Ok fd), (Nl_bind, Err e), (Close NlSock, c)] \<and> rc = - 1)
      \<or> (\<exists>fd b \<rho> req c.
            evs = [(Nl_socket, Ok fd), (Nl_bind, Ok b),
                   (If_nametoindex (host_veth_name container_id), \<rho>)]
                  @ req @ [(Close NlSock, c)]
            \<and> (case found_index \<rho> of
                  None \<Rightarrow> req = [] \<and> rc = 0
                | Some i \<Rightarrow> delete_request i rc req)))"

text \<open>
  Filesystem builder.  The calls of \<^verbatim>\<open>mkdirp\<close> and \<^verbatim>\<open>microbox_bind_mount\<close> are
  \<open>is_bind_call\<close>: \<^verbatim>\<open>stat\<close>, \<^verbatim>\<open>mkdir\<close>, \<^verbatim>\<open>open\<close>, \<^verbatim>\<open>close\<close> and bind mounts, which name
  no filesystem type.  The calls that build the new root are \<open>build_call\<close>: none of
  them is \<^verbatim>\<open>pivot_root\<close>, \<^verbatim>\<open>chdir\<close>, \<^verbatim>\<open>umount2\<close> or \<^verbatim>\<open>rmdir\<close>.
\<close>

definition is_bind_call :: "syscall \<Rightarrow> bool" where
  "is_bind_call c =
     (case c of
        Stat p \<Rightarrow> True
      | Mkdir p m \<Rightarrow> True
      | Open p fl \<Rightarrow> True
      | Close f \<Rightarrow> True
      | Mount src tgt fstype fl data \<Rightarrow> fstype = None \<and> MS_BIND \<in> fl
      | _ \<Rightarrow> False)"

definition build_call :: "syscall \<Rightarrow> bool" where
  "build_call c =
     (case c of
        Mount src tgt fstype fl data \<Rightarrow> True
      | Mkdir p m \<Rightarrow> True
      | Mkdirat d p m \<Rightarrow> True
      | Stat p \<Rightarrow> True
      | Access p \<Rightarrow> True
      | Open p fl \<Rightarrow> True
      | Close f \<Rightarrow> True
      | Unlink p \<Rightarrow> True
      | Symlink a b \<Rightarrow> True
      | _ \<Rightarrow> False)"

text \<open>The mounts of the new root, as the functions of \<^verbatim>\<open>fs.c\<close> issue them.\<close>

definition bind_mounts_of :: "string \<Rightarrow> mount_spec \<Rightarrow> syscall list" where
  "bind_mounts_of base spec =
     Mount (Some (host spec)) (snprintf_buf PATH_MAX (base @ dest spec)) None {MS_BIND, MS_REC} None
     # (if mode spec = MNT_RO
        then [Mount None (snprintf_buf PATH_MAX (base @ dest spec)) None
                {MS_BIND, MS_REMOUNT, MS_RDONLY, MS_NOSUID} None]
        else [])"

definition tmpfs_mount :: "string \<Rightarrow> syscall" where
  "tmpfs_mount path =
     Mount (Some ''tmpfs'') path (Some ''tmpfs'') {MS_NOSUID, MS_NODEV} (Some ''mode=700,size=512m'')"

definition overlay_mount :: "string \<Rightarrow> string \<Rightarrow> syscall" where
  "overlay_mount src mountpoint =
     Mount (Some ''overlay'') (path_join mountpoint ''merged'') (Some ''overlay'') {}
       (Some (''lowerdir='' @ src @ '',upperdir='' @ path_join mountpoint ''upper''
              @ '',workdir='' @ path_join mountpoint ''work''))"

definition proc_mount :: "string \<Rightarrow> syscall" where
  "proc_mount base =
     Mount (Some ''proc'') (snprintf_buf PATH_MAX (base @ ''/proc'')) (Some ''proc'')
       {MS_NOSUID, MS_NOEXEC, MS_NODEV} None"

definition dev_mount :: "string \<Rightarrow> syscall" where
  "dev_mount base =
     Mount (Some ''tmpfs'') (snprintf_buf PATH_MAX (base @ ''/dev'')) (Some ''tmpfs'')
       {MS_NOSUID, MS_NOEXEC} (Some ''mode=755,size=2m'')"

text \<open>
  The new root of a mode, and the mounts that make it up: the tmpfs at \<^verbatim>\<open>/box\<close>, the
  overlay in rootfs mode, the user's bind mounts, \<^verbatim>\<open>/proc\<close> and \<^verbatim>\<open>/dev\<close> with its
  \<^verbatim>\<open>/dev/shm\<close> when asked for.
\<close>

definition new_root :: "sandbox_options \<Rightarrow> string" where
  "new_root opts =
     (if fs_mode opts = FS_ROOTFS then path_join ''/box/overlay'' ''merged'' else ''/box'')"

definition required_mounts :: "sandbox_options \<Rightarrow> syscall list" where
  "required_mounts opts =
     [tmpfs_mount ''/box'']
     @ (if fs_mode opts = FS_ROOTFS then [overlay_mount (the (rootfs opts)) ''/box/overlay''] else [])
     @ concat (map (bind_mounts_of (new_root opts)) (mounts opts))
     @ (if mount_proc opts then [proc_mount (new_root opts)] else [])
     @ (if mount_dev opts then [dev_mount (new_root opts), shm_mount (new_root opts)] else [])"

definition old_root_teardown :: "syscall list" where
  "old_root_teardown = [Chdir ''/'', Umount2_detach ''/.old_root'', Rmdir ''/.old_root'']"

text \<open>
  \<^verbatim>\<open>mkdir\<close> and \<^verbatim>\<open>stat\<close> return 0 when they succeed; a run in which they did is
  \<open>posix_run\<close>.
\<close>

definition posix_ret :: "event \<Rightarrow> bool" where
  "posix_ret e =
     (case snd e of
        Err x \<Rightarrow> True
      | Ok n \<Rightarrow> (case fst e of Mkdir p m \<Rightarrow> n = 0 | Stat p \<Rightarrow> n = 0 | _ \<Rightarrow> True))"

definition posix_run :: "event list \<Rightarrow> bool" where
  "posix_run evs = list_all posix_ret evs"

text \<open>
  The end of a run of the builder: either \<^verbatim>\<open>pivot_root\<close> is not reached, or the run
  changed into the new root, made \<^verbatim>\<open>.old_root\<close> there, called \<^verbatim>\<open>pivot_root\<close> and went on
  with nothing but the teardown of the old root.
\<close>

definition pivot_tail :: "string \<Rightarrow> event list \<Rightarrow> bool" where
  "pivot_tail newroot fin =
     ((pivot_root_call \<notin> fst ` set fin
        \<and> prefix (map fst fin) [Chdir newroot, Mkdir ''.old_root'' 448])
      \<or> (\<exists>a b \<rho> post.
            fin = [(Chdir newroot, Ok a), (Mkdir ''.old_root'' 448, Ok b), (pivot_root_call, \<rho>)] @ post
            \<and> prefix (map fst post) old_root_teardown))"

text \<open>
  A run of the builder: the calls that build the new root, then the end above; when
  the end is reached in a run where \<^verbatim>\<open>mkdir\<close> and \<^verbatim>\<open>stat\<close> returned 0 on success, all
  the mounts \<open>req\<close> have succeeded before it.
\<close>

definition fs_run :: "string \<Rightarrow> syscall list \<Rightarrow> event list \<Rightarrow> bool" where
  "fs_run newroot req evs =
     (\<exists>pre fin. evs = pre @ fin
        \<and> (\<forall>e \<in> set pre. build_call (fst e))
        \<and> pivot_tail newroot fin
        \<and> (fin \<noteq> [] \<longrightarrow> posix_run pre \<longrightarrow> (\<forall>c \<in> set req. \<exists>n. (c, Ok n) \<in> set pre)))"

text \<open>
  The order the claim is about: the first call of all is the private remount of
  \<^verbatim>\<open>/\<close>; when \<^verbatim>\<open>pivot_root\<close> is called, every mount of the new root has succeeded
  before it, the two calls just before it are the successful \<^verbatim>\<open>chdir\<close> into the new
  root and \<^verbatim>\<open>mkdir\<close> of \<^verbatim>\<open>.old_root\<close>, it is called once, and what follows is a prefix
  of the teardown of the old root, so that no mount follows.
\<close>

definition pivot_order :: "sandbox_options \<Rightarrow> event list \<Rightarrow> bool" where
  "pivot_order opts evs =
     (evs \<noteq> [] \<and> fst (hd evs) = private_root_mount
      \<and> (pivot_root_call \<in> fst ` set evs \<longrightarrow>
           (\<exists>pre a b \<rho> post.
              evs = pre @ [(Chdir (new_root opts), Ok a), (Mkdir ''.old_root'' 448, Ok b),
                           (pivot_root_call, \<rho>)] @ post
              \<and> pivot_root_call \<notin> fst ` set pre
              \<and> (\<forall>c \<in> set (required_mounts opts). \<exists>n. (c, Ok n) \<in> set pre)
              \<and> prefix (map fst post) old_root_teardown)))"

section \<open>Concrete worlds\<close>

text \<open>
  A world in which every call succeeds: a write takes the whole buffer, \<^verbatim>\<open>clone3\<close>
  returns the child 4242 to the parent, every path is a directory, the user is 1000.
\<close>

definition world_ok :: world where
  "world_ok =
     \<lparr>sys_ret = (\<lambda>tr c. case c of
                    Write f d \<Rightarrow> Ok (length d)
                  | Clone3 fl \<Rightarrow> Ok 4242
                  | _ \<Rightarrow> Ok 0),
      st_type = (\<lambda>tr p. S_IFDIR),
      real_uid = 1000,
      real_gid = 1000,
      own_pid = 4000,
      parent_pid = 4000,
      resolve_name = map_of [(''mount'', 165), (''ptrace'', 101), (''bpf'', 321), (''chroot'', 161)],
      wait_info = (\<lambda>tr. (CLD_EXITED, 0)),
      nl_msg = (\<lambda>tr. Nl_error 0),
      nl_truncated = (\<lambda>tr. False)\<rparr>"

definition world_killed :: world where
  "world_killed = world_ok\<lparr>wait_info := (\<lambda>tr. (CLD_KILLED, 9))\<rparr>"

definition world_dumped :: world where
  "world_dumped = world_ok\<lparr>wait_info := (\<lambda>tr. (CLD_DUMPED, 11))\<rparr>"

definition world_exit3 :: world where
  "world_exit3 = world_ok\<lparr>wait_info := (\<lambda>tr. (CLD_EXITED, 3))\<rparr>"

definition world_nowait :: world where
  "world_nowait = world_ok\<lparr>sys_ret := (\<lambda>tr c. Err EINVAL)\<rparr>"

text \<open>
  A world in which every bind mount is refused, the devices of the allowlist are
  character devices and every other path is a directory.
\<close>

definition world_nobind :: world where
  "world_nobind =
     world_ok\<lparr>sys_ret := (\<lambda>tr c. case c of
                            Mount src tgt fstype fl data \<Rightarrow>
                              if MS_BIND \<in> fl then Err EPERM else Ok 0
                          | _ \<Rightarrow> Ok 0),
               st_type := (\<lambda>tr p. if p \<in> set dev_dirs then S_IFCHR else S_IFDIR)\<rparr>"

text \<open>A world like \<open>world_ok\<close> in which every interface name has the index 7.\<close>

definition world_veth :: world where
  "world_veth =
     world_ok\<lparr>sys_ret := (\<lambda>tr c. case c of If_nametoindex name \<Rightarrow> Ok 7 | _ \<Rightarrow> Ok 0)\<rparr>"

definition proc0 :: sandbox_process where
  "proc0 = \<lparr>pidfd = 5, pid = 4242\<rparr>"

definition s_init :: kstate where
  "s_init = \<lparr>errno = 0, trace = []\<rparr>"

definition opts0 :: sandbox_options where
  "opts0 =
     \<lparr>fs_mode = FS_TMPFS, net_mode = NET_NONE, rootfs = None, hostname = Some ''box'',
      cpus = Finite 0 0, memory = 0, mounts = [], mount_proc = True, mount_dev = True,
      env = None, syscalls_allow = [''mount''], syscalls_deny = [''chroot''],
      cmd = [''/bin/sh'']\<rparr>"

section \<open>Verification\<close>

subsection \<open>The memory-size parser\<close>

lemma unat_of_nat64: "n < 2^64 \<Longrightarrow> unat (of_nat n :: 64 word) = n"
  by (simp add: unat_of_nat take_bit_nat_eq_self)

lemma takeWhile_digits:
  "\<forall>c\<in>set ds. is_digit c \<Longrightarrow> sfx = [] \<or> \<not> is_digit (hd sfx) \<Longrightarrow>
   takeWhile is_digit (ds @ sfx) = ds \<and> dropWhile is_digit (ds @ sfx) = sfx"
  by (cases sfx) (auto simp: takeWhile_append dropWhile_append)

lemma digit_not_space: "is_digit c \<Longrightarrow> \<not> is_space c \<and> c \<noteq> CHR ''-'' \<and> c \<noteq> CHR ''+''"
  by (auto simp: is_digit_def is_space_def)

lemma strtoull_digits:
  assumes "ds \<noteq> []" "\<forall>c\<in>set ds. is_digit c" "sfx = [] \<or> \<not> is_digit (hd sfx)"
  shows "strtoull err (ds @ sfx) =
     (if decimal_value ds > 2 ^ 64 - 1 then (ULLONG_MAX, sfx, errno_val ERANGE)
      else (of_nat (decimal_value ds), sfx, err))"
proof -
  obtain d ds' where ds: "ds = d # ds'" using assms(1) by (cases ds) auto
  have d: "is_digit d" using assms(2) ds by simp
  have tw: "takeWhile is_digit (ds @ sfx) = ds" "dropWhile is_digit (ds @ sfx) = sfx"
    using takeWhile_digits[OF assms(2,3)] by simp_all
  have dw: "dropWhile is_space (ds @ sfx) = ds @ sfx"
    using digit_not_space[OF d] ds by simp
  have sgn: "(case ds @ sfx of [] \<Rightarrow> (False, ds @ sfx)
      | c # r \<Rightarrow> if c = CHR ''-'' then (True, r) else if c = CHR ''+'' then (False, r) else (False, ds @ sfx))
      = (False, ds @ sfx)"
    using digit_not_space[OF d] ds by simp
  show ?thesis
    unfolding strtoull_def dw Let_def sgn using assms(1) by (simp add: tw)
qed

lemma word_gt_div:
  assumes "n < 2 ^ 64" "m \<in> {1024, 1024 * 1024, 1024 * 1024 * 1024}"
  shows "((of_nat n :: 64 word) > ULLONG_MAX div of_nat m) = (\<not> n * m < 2 ^ 64)"
proof -
  have "unat (ULLONG_MAX div (of_nat m :: 64 word)) = (2 ^ 64 - 1) div m"
    using assms(2) by (auto simp: ULLONG_MAX_def unat_div unsigned_minus_1_eq_mask mask_eq_exp_minus_1)
  then show ?thesis
    using assms by (auto simp: word_less_nat_alt unat_of_nat64)
qed

lemma parse_memory_digits:
  assumes digits: "ds \<noteq> []" "\<forall>c\<in>set ds. is_digit c"
    and nd: "sfx = [] \<or> \<not> is_digit (hd sfx)"
    and nul: "CHR 0x00 \<notin> set sfx"
    and clean: "\<not> (err = errno_val ERANGE \<and> decimal_value ds = 2 ^ 64 - 1)"
  shows "parse_memory err (Some (ds @ sfx)) =
           (case spec_memory_bytes (decimal_value ds) (take 1 sfx) of
              None \<Rightarrow> 0 | Some v \<Rightarrow> of_nat v)"
proof -
  let ?n = "decimal_value ds"
  note st = strtoull_digits[OF digits nd, of err]
  show ?thesis
  proof (cases "?n > 2 ^ 64 - 1")
    case True
    then have "spec_memory_bytes ?n (take 1 sfx) = None"
      by (auto simp: spec_memory_bytes_def split: option.splits)
    moreover have "parse_memory err (Some (ds @ sfx)) = 0"
    proof -
      have st': "strtoull err (ds @ sfx) = (ULLONG_MAX, sfx, errno_val ERANGE)"
        using True st by simp
      show ?thesis by (simp add: parse_memory_def st' del: errno_val.simps)
    qed
    ultimately show ?thesis by simp
  next
    case False
    then have lt: "?n < 2 ^ 64" by simp
    have ne: "\<not> ((of_nat ?n :: 64 word) = ULLONG_MAX \<and> err = errno_val ERANGE)"
    proof
      assume a: "(of_nat ?n :: 64 word) = ULLONG_MAX \<and> err = errno_val ERANGE"
      then have "unat (of_nat ?n :: 64 word) = unat ULLONG_MAX" by simp
      then have "?n = 2 ^ 64 - 1"
        using lt by (simp add: unat_of_nat64 ULLONG_MAX_def unsigned_minus_1_eq_mask mask_eq_exp_minus_1)
      with a clean show False by simp
    qed
    have pm: "parse_memory err (Some (ds @ sfx)) =
        (let result = (of_nat ?n :: 64 word); c = deref sfx in
             if c = CHR ''k'' \<or> c = CHR ''K'' then
               (if result > ULLONG_MAX div 1024 then 0 else result * 1024)
             else if c = CHR ''m'' \<or> c = CHR ''M'' then
               (if result > ULLONG_MAX div (1024 * 1024) then 0 else result * (1024 * 1024))
             else if c = CHR ''g'' \<or> c = CHR ''G'' then
               (if result > ULLONG_MAX div (1024 * 1024 * 1024) then 0
                else result * (1024 * 1024 * 1024))
             else if c \<noteq> CHR ''b'' \<and> c \<noteq> CHR ''B'' \<and> c \<noteq> CHR 0x00 then 0
             else result * 1)"
    proof -
      have st': "strtoull err (ds @ sfx) = (of_nat ?n, sfx, err)"
        using False st by simp
      show ?thesis
        by (simp only: parse_memory_def option.case st' Let_def prod.case if_not_P[OF ne])
    qed
    have g1: "((of_nat ?n :: 64 word) > ULLONG_MAX div 1024) = (\<not> ?n * 1024 < 2 ^ 64)"
      using word_gt_div[OF lt, of 1024] by simp
    have g2: "((of_nat ?n :: 64 word) > ULLONG_MAX div (1024 * 1024)) = (\<not> ?n * (1024 * 1024) < 2 ^ 64)"
      using word_gt_div[OF lt, of "1024 * 1024"] by simp
    have g3: "((of_nat ?n :: 64 word) > ULLONG_MAX div (1024 * 1024 * 1024)) = (\<not> ?n * (1024 * 1024 * 1024) < 2 ^ 64)"
      using word_gt_div[OF lt, of "1024 * 1024 * 1024"] by simp
    show ?thesis
    proof (cases sfx)
      case Nil
      then show ?thesis using lt unfolding pm Let_def
        by (simp add: deref_def spec_memory_bytes_def spec_multiplier_def)
    next
      case (Cons c r)
      then have c: "c \<noteq> CHR 0x00" using nul by auto
      show ?thesis using lt c Cons
        unfolding pm Let_def g1 g2 g3
        by (auto simp: deref_def spec_memory_bytes_def spec_multiplier_def)
    qed
  qed
qed

lemma digits_prefix:
  assumes "m \<noteq> []" "is_digit (hd m)"
  shows "takeWhile is_digit m \<noteq> []"
    and "\<forall>c\<in>set (takeWhile is_digit m). is_digit c"
    and "dropWhile is_digit m = [] \<or> \<not> is_digit (hd (dropWhile is_digit m))"
proof -
  show "takeWhile is_digit m \<noteq> []" using assms by (cases m) auto
  show "\<forall>c\<in>set (takeWhile is_digit m). is_digit c" by (auto dest: set_takeWhileD)
  show "dropWhile is_digit m = [] \<or> \<not> is_digit (hd (dropWhile is_digit m))"
    using hd_dropWhile [of is_digit m] by blast
qed

text \<open>
  Claim C8, as the code has it.  For a string that starts with a decimal number,
  \<^verbatim>\<open>parse_memory\<close> looks at the one character that follows the digits and at nothing
  after it: the number times 1024 for k/K, times 1024 * 1024 for m/M, times
  1024 * 1024 * 1024 for g/G, the number itself for b/B or the end of the string; when
  the number or the product does not fit 64 bits, or that character is any other one, it
  returns 0, and the command line parser then exits with status 1.  The string is a C
  string (it holds no NUL), and \<^verbatim>\<open>errno\<close> on entry is assumed not to be a stale
  \<^verbatim>\<open>ERANGE\<close> when the number is exactly \<open>2 ^ 64 - 1\<close>.
\<close>

theorem parse_memory_first_char:
  assumes number: "m \<noteq> []" "is_digit (hd m)"
    and cstring: "CHR 0x00 \<notin> set m"
    and clean: "\<not> (err = errno_val ERANGE \<and> decimal_value (takeWhile is_digit m) = 2 ^ 64 - 1)"
  shows "parse_memory err (Some m) =
           (case spec_memory_bytes (decimal_value (takeWhile is_digit m))
                   (take 1 (dropWhile is_digit m)) of
              None \<Rightarrow> 0 | Some v \<Rightarrow> of_nat v)
         \<and> (spec_memory_bytes (decimal_value (takeWhile is_digit m))
               (take 1 (dropWhile is_digit m)) = None \<longrightarrow>
              cli_parse_memory err (Some m) = Exit 1)"
proof -
  have nul: "CHR 0x00 \<notin> set (dropWhile is_digit m)"
    using cstring by (auto dest: set_dropWhileD)
  have "parse_memory err (Some (takeWhile is_digit m @ dropWhile is_digit m)) =
           (case spec_memory_bytes (decimal_value (takeWhile is_digit m))
                   (take 1 (dropWhile is_digit m)) of
              None \<Rightarrow> 0 | Some v \<Rightarrow> of_nat v)"
    by (rule parse_memory_digits [OF digits_prefix [OF number] nul clean])
  then have main: "parse_memory err (Some m) =
           (case spec_memory_bytes (decimal_value (takeWhile is_digit m))
                   (take 1 (dropWhile is_digit m)) of
              None \<Rightarrow> 0 | Some v \<Rightarrow> of_nat v)"
    by simp
  show ?thesis
    using main by (auto simp: cli_parse_memory_def EXIT_FAILURE_def)
qed

theorem parse_memory_first_char_witness:
  "parse_memory 0 (Some ''2G'') = 2 * 1024 * 1024 * 1024 \<and>
   parse_memory 0 (Some ''10M'') = 10485760 \<and>
   parse_memory 0 (Some ''10Mfoo'') = 10485760 \<and>
   parse_memory 0 (Some ''7x'') = 0 \<and>
   cli_parse_memory 0 (Some ''7x'') = Exit 1"
proof -
  have a: "parse_memory 0 (Some ''2G'') = 2 * 1024 * 1024 * 1024"
    using parse_memory_first_char [of "''2G''" 0]
    by (simp add: is_digit_def spec_memory_bytes_def spec_multiplier_def decimal_value_def digit_val_def)
  have b: "parse_memory 0 (Some ''10M'') = 10485760"
    using parse_memory_first_char [of "''10M''" 0]
    by (simp add: is_digit_def spec_memory_bytes_def spec_multiplier_def decimal_value_def digit_val_def)
  have b': "parse_memory 0 (Some ''10Mfoo'') = 10485760"
    using parse_memory_first_char [of "''10Mfoo''" 0]
    by (simp add: is_digit_def spec_memory_bytes_def spec_multiplier_def decimal_value_def digit_val_def)
  have c: "parse_memory 0 (Some ''7x'') = 0 \<and> cli_parse_memory 0 (Some ''7x'') = Exit 1"
    using parse_memory_first_char [of "''7x''" 0]
    by (simp add: is_digit_def spec_memory_bytes_def spec_multiplier_def decimal_value_def digit_val_def)
  show ?thesis using a b b' c by simp
qed

text \<open>
  The claim read as it is written makes \<open>GB\<close> an error: it is none of the suffixes
  k/K, m/M, g/G, b/B.  The parser accepts \<open>2GB\<close> as 2 * 1024 * 1024 * 1024 and the
  command line parser goes on with that value.
\<close>

theorem parse_memory_suffix_counterexample:
  "spec_memory_bytes 2 ''GB'' = None
   \<and> parse_memory 0 (Some ''2GB'') = 2147483648
   \<and> cli_parse_memory 0 (Some ''2GB'') = Parsed 2147483648"
proof -
  have p: "parse_memory 0 (Some (''2'' @ ''GB'')) = 2147483648"
    by (subst parse_memory_digits)
      (simp_all add: is_digit_def spec_memory_bytes_def spec_multiplier_def decimal_value_def
        digit_val_def)
  have s: "spec_memory_bytes 2 ''GB'' = None"
    by (simp add: spec_memory_bytes_def spec_multiplier_def)
  show ?thesis using p s by (simp add: cli_parse_memory_def)
qed

subsection \<open>Stepping through a run\<close>

lemma holds_pair [simp]: "holds P (r, s) = P r s"
  by (simp add: holds_def)

lemma holdsD: "holds P x \<Longrightarrow> x = (r, s') \<Longrightarrow> P r s'"
  by (simp add: holds_def)

lemma holdsI: "(\<And>r s'. x = (r, s') \<Longrightarrow> P r s') \<Longrightarrow> holds P x"
  by (cases x) (simp add: holds_def)

lemma holds_Let: "holds P (f e) \<Longrightarrow> holds P (Let e f)"
  by simp

lemma holds_if: "(c \<Longrightarrow> holds P a) \<Longrightarrow> (\<not> c \<Longrightarrow> holds P b) \<Longrightarrow> holds P (if c then a else b)"
  by simp

lemma holds_sys:
  "(\<And>\<rho>. holds P (body (rc_of \<rho>) (step s c \<rho>))) \<Longrightarrow> holds P (case_prod body (sys w c s))"
  by (simp add: sys_def Let_def)

lemma holds_call:
  "holds Q x \<Longrightarrow> (\<And>r s1. Q r s1 \<Longrightarrow> holds P (body r s1)) \<Longrightarrow> holds P (case_prod body x)"
  by (cases x) (simp add: holds_def)

lemma holds_weaken: "holds Q x \<Longrightarrow> (\<And>r s1. Q r s1 \<Longrightarrow> P r s1) \<Longrightarrow> holds P x"
  by (cases x) (simp add: holds_def)

lemma holds_option:
  "(x = None \<Longrightarrow> holds P a) \<Longrightarrow> (\<And>v. x = Some v \<Longrightarrow> holds P (b v)) \<Longrightarrow>
   holds P (case x of None \<Rightarrow> a | Some v \<Rightarrow> b v)"
  by (cases x) simp_all

lemma holds_bind:
  "holds (\<lambda>r s1. holds P (body r s1)) x \<Longrightarrow> holds P (case_prod body x)"
  by (cases x) (simp add: holds_def)

lemma holds_sys0: "(\<And>\<rho>. Q (rc_of \<rho>) (step s c \<rho>)) \<Longrightarrow> holds Q (sys w c s)"
  by (simp add: sys_def Let_def)

lemma holds_leaf: "P r s \<Longrightarrow> holds P (r, s)"
  by simp

lemma holds_case_pair: "holds P (f a b) \<Longrightarrow> holds P (case (a, b) of (x, y) \<Rightarrow> f x y)"
  by simp

lemma holds_case_pair_app:
  "holds P (f a b s) \<Longrightarrow> holds P ((case (a, b) of (x, y) \<Rightarrow> f x y) s)"
  by simp

lemma holds_pure_pair:
  "(\<And>a b. x = (a, b) \<Longrightarrow> holds P (f a b)) \<Longrightarrow> holds P (case x of (a, b) \<Rightarrow> f a b)"
  by (cases x) simp

lemmas vcg = holds_Let holds_if holds_bind holds_sys0 holds_leaf holds_case_pair
  holds_case_pair_app

lemma trace_step [simp]: "trace (step s c \<rho>) = trace s @ [(c, \<rho>)]"
  by (simp add: step_def)

lemma errno_step_Ok [simp]: "errno (step s c (Ok n)) = errno s"
  and errno_step_Err [simp]: "errno (step s c (Err e)) = errno_val e"
  by (simp_all add: step_def)

lemma rc_of_simps [simp]: "rc_of (Ok n) = int n" "rc_of (Err e) = - 1"
  by (simp_all add: rc_of_def)

lemma rc_of_neg [simp]: "(rc_of \<rho> < 0) = (\<exists>e. \<rho> = Err e)"
  by (cases \<rho>) auto

lemma rc_of_m1 [simp]: "(rc_of \<rho> = - 1) = (\<exists>e. \<rho> = Err e)"
  by (cases \<rho>) auto

lemma rc_of_eq_int [simp]: "(rc_of \<rho> = int n) = (\<rho> = Ok n)"
  by (cases \<rho>) auto

lemma rc_of_zero [simp]: "(rc_of \<rho> = 0) = (\<rho> = Ok 0)"
  by (cases \<rho>) auto

lemma rc_of_le0 [simp]: "(rc_of \<rho> \<le> 0) = ((\<exists>e. \<rho> = Err e) \<or> \<rho> = Ok 0)"
  by (cases \<rho>) auto

lemma rc_of_ge0 [simp]: "(0 \<le> rc_of \<rho>) = (\<exists>n. \<rho> = Ok n)"
  by (cases \<rho>) auto

lemma errno_val_pos [simp]: "0 < errno_val e"
  by (cases e) simp_all

lemma errno_val_nonzero [simp]: "errno_val e \<noteq> 0"
  using errno_val_pos [of e] by linarith

lemma errno_step_pos [simp]: "0 < errno s \<Longrightarrow> 0 < errno (step s c \<rho>)"
  by (cases \<rho>) simp_all

lemma errno_step_nonzero [simp]: "0 < errno s \<Longrightarrow> errno (step s c \<rho>) \<noteq> 0"
  using errno_step_pos [of s c \<rho>] by linarith

lemma errno_step_Err_nonzero [simp]: "errno (step (step s c (Err e)) c' \<rho>) \<noteq> 0"
  by simp

lemma not_Err_iff: "(\<forall>e. \<rho> \<noteq> Err e) = (\<exists>n. \<rho> = Ok n)"
  by (cases \<rho>) auto

lemma new_events_refl [simp]: "new_events s s = []"
  by (simp add: new_events_def)

lemma new_events_step [simp]:
  "length (trace s) \<le> length (trace s') \<Longrightarrow>
   new_events s (step s' c \<rho>) = new_events s s' @ [(c, \<rho>)]"
  by (simp add: new_events_def)

lemma new_events_errno [simp]: "new_events s (s'\<lparr>errno := x\<rparr>) = new_events s s'"
  "new_events (s\<lparr>errno := x\<rparr>) s' = new_events s s'"
  by (simp_all add: new_events_def)

lemma new_events_append:
  "trace s' = trace s @ evs \<Longrightarrow> new_events s s' = evs"
  by (simp add: new_events_def)

lemma extends_new_events: "extends s s' \<Longrightarrow> trace s' = trace s @ new_events s s'"
  by (auto simp: extends_def new_events_def)

lemma extends_refl [simp]: "extends s s"
  by (simp add: extends_def)

lemma extends_step [simp]: "extends s s' \<Longrightarrow> extends s (step s' c \<rho>)"
  by (auto simp: extends_def)

lemma extends_errno [simp]: "extends s (s'\<lparr>errno := x\<rparr>) = extends s s'"
  "extends (s\<lparr>errno := x\<rparr>) s' = extends s s'"
  by (simp_all add: extends_def)

lemma extends_trans: "extends s s1 \<Longrightarrow> extends s1 s2 \<Longrightarrow> extends s s2"
  by (auto simp: extends_def)

lemma extends_length: "extends s s' \<Longrightarrow> length (trace s) \<le> length (trace s')"
  by (auto simp: extends_def)

lemma new_events_trans:
  "extends s s1 \<Longrightarrow> extends s1 s2 \<Longrightarrow> new_events s s2 = new_events s s1 @ new_events s1 s2"
  by (auto simp: extends_def new_events_def)

lemma emits_refl [simp]: "emits s s []"
  by (simp add: emits_def)

lemma emits_step: "emits s s' evs \<Longrightarrow> emits s (step s' c \<rho>) (evs @ [(c, \<rho>)])"
  by (simp add: emits_def)

lemma emits_errno [simp]: "emits s (s'\<lparr>errno := x\<rparr>) evs = emits s s' evs"
  "emits (s\<lparr>errno := x\<rparr>) s' evs = emits s s' evs"
  by (simp_all add: emits_def)

lemma emits_trans: "emits s s1 evs1 \<Longrightarrow> emits s1 s2 evs2 \<Longrightarrow> emits s s2 (evs1 @ evs2)"
  by (simp add: emits_def)

lemma emits_step_left [simp]: "emits (step s c \<rho>) s' evs = emits s s' ((c, \<rho>) # evs)"
  by (simp add: emits_def)

lemma ex_emits: "emits s s' X \<Longrightarrow> (\<exists>evs. emits s s' evs \<and> P evs) = P X"
  by (auto simp: emits_def)

lemma emits_new_events: "emits s s' evs \<Longrightarrow> new_events s s' = evs"
  by (simp add: emits_def new_events_def)

lemma emits_calls: "emits s s' evs \<Longrightarrow> calls s s' = map fst evs"
  by (simp add: calls_def emits_new_events)

lemma is_write_simps [simp]:
  "is_write (Write f d)" "\<not> is_write (Open p fl)" "\<not> is_write (Close f)"
  "\<not> is_write (Mkdir p m)"
  by (simp_all add: is_write_def)

lemma sys_world_ok [simp]:
  "sys world_ok c s =
     (case c of
        Write f d \<Rightarrow> (int (length d), step s c (Ok (length d)))
      | Clone3 fl \<Rightarrow> (4242, step s c (Ok 4242))
      | _ \<Rightarrow> (0, step s c (Ok 0)))"
  by (simp add: sys_def world_ok_def split: syscall.splits)

lemma world_ok_fields [simp]:
  "real_uid world_ok = 1000" "real_gid world_ok = 1000" "st_type world_ok tr p = S_IFDIR"
  "parent_pid world_ok = 4000" "wait_info world_ok tr = (CLD_EXITED, 0)"
  "nl_msg world_ok tr = Nl_error 0" "nl_truncated world_ok tr = False"
  "resolve_name world_ok = map_of [(''mount'', 165), (''ptrace'', 101), (''bpf'', 321), (''chroot'', 161)]"
  by (simp_all add: world_ok_def)

lemma step_s_init [simp]:
  "trace s_init = []" "errno s_init = 0"
  by (simp_all add: s_init_def)

lemma new_events_init [simp]: "new_events s_init s' = trace s'"
  by (simp add: new_events_def)

subsection \<open>Cgroup limits\<close>

lemma dtrunc_floor: "nat (dtrunc m e) = nat \<lfloor>dval (Finite m e)\<rfloor>"
proof (cases "e \<ge> 0")
  case True
  have "\<lfloor>(of_int (m * 2 ^ nat e) :: real)\<rfloor> = m * 2 ^ nat e"
    by (rule floor_of_int)
  then show ?thesis using True by (simp only: dtrunc_def dval_def if_True double.case)
next
  case False
  let ?k = "nat (- e)"
  have fl: "\<lfloor>(of_int m :: real) / of_int (2 ^ ?k)\<rfloor> = m div 2 ^ ?k"
    by (rule floor_divide_of_int_eq)
  show ?thesis
  proof (cases "m \<ge> 0")
    case True
    then have "sgn m * (\<bar>m\<bar> div 2 ^ ?k) = m div 2 ^ ?k"
      by (cases "m = 0") (simp_all add: sgn_if)
    then show ?thesis using False fl by (simp add: dtrunc_def dval_def)
  next
    case neg: False
    then have "m div 2 ^ ?k < 0"
      by (simp add: div_neg_pos_less0 neg_imp_zdiv_neg_iff)
    moreover have "sgn m * (\<bar>m\<bar> div 2 ^ ?k) \<le> 0"
      using neg by (simp add: sgn_if pos_imp_zdiv_nonneg_iff)
    ultimately show ?thesis using False fl by (simp add: dtrunc_def dval_def)
  qed
qed

lemma double_to_uint_floor:
  assumes "double_to_uint x = Some q"
  shows "unat q = nat \<lfloor>dval x\<rfloor>"
proof (cases x)
  case (Finite m e)
  with assms have r: "0 \<le> dtrunc m e" "dtrunc m e < 2 ^ 32" and q: "q = word_of_int (dtrunc m e)"
    by (auto simp: double_to_uint_def split: if_splits)
  have "unat q = nat (dtrunc m e)"
    using r unfolding q by (simp add: unat_eq_nat_uint uint_word_of_int take_bit_int_eq_self)
  then show ?thesis using Finite by (simp add: dtrunc_floor)
qed (use assms in \<open>simp_all add: double_to_uint_def\<close>)

lemma is_write_under_simps [simp]:
  "is_write_under dir (Write (File p) d) = prefix dir p"
  "\<not> is_write_under dir (Open p fl)" "\<not> is_write_under dir (Close f)"
  "\<not> is_write_under dir (Mkdir p m)"
  by (simp_all add: is_write_under_def)

lemma prefix_self_append [simp]: "prefix d (d @ x)"
  by (simp add: prefix_def)

lemma not_under_ctl [simp]:
  "\<not> prefix (cgroup_dir child) ''/sys/fs/cgroup/cgroup.subtree_control''"
  by (simp add: cgroup_dir_def)

lemma errno_step_case:
  "errno (step s c \<rho>) = (case \<rho> of Ok n \<Rightarrow> errno s | Err e \<Rightarrow> errno_val e)"
  by (cases \<rho>) simp_all

lemma show_nat_period [simp]: "show_nat 100000 = ''100000''"
  by (simp add: show_nat.simps digit_char_def)

lemma attach_holds:
  "holds (\<lambda>out s'. \<exists>evs. emits s s' evs \<and>
       wrote_under (cgroup_dir child)
         [Write (File (cgroup_dir child @ ''/cgroup.procs'')) (show_int child)] out evs)
     (cgroup_attach w child (cgroup_dir child) s)"
  unfolding cgroup_attach_def
  apply (intro vcg)
  apply (auto simp: emits_def wrote_under_def)
  done

lemma memory_holds:
  "holds (\<lambda>out s'. \<exists>evs. emits s s' evs \<and>
       wrote_under (cgroup_dir child)
         ((if m > 0
           then [Write (File (cgroup_dir child @ ''/memory.max'')) (show_nat (unat m)),
                 Write (File (cgroup_dir child @ ''/memory.swap.max'')) ''0'']
           else [])
          @ [Write (File (cgroup_dir child @ ''/cgroup.procs'')) (show_int child)]) out evs)
     (cgroup_memory w child (cgroup_dir child) m s)"
  unfolding cgroup_memory_def
  apply (intro vcg holds_weaken [OF attach_holds])
  apply (auto simp: emits_def wrote_under_def simp del: prefix_snoc)
  done

lemma cpu_holds:
  "holds (\<lambda>out s'. \<exists>evs. emits s s' evs \<and>
       wrote_under (cgroup_dir child) (cgroup_limit_writes child c m) out evs)
     (cgroup_cpu w child (cgroup_dir child) c m s)"
  unfolding cgroup_cpu_def
  apply (intro vcg holds_option holds_weaken [OF memory_holds])
  apply (auto simp: emits_def wrote_under_def cgroup_limit_writes_def cpu_quota_def
      simp del: prefix_snoc dest!: double_to_uint_floor)
  done

lemma cgroup_holds:
  "holds (\<lambda>out s'. \<exists>evs. emits s s' evs \<and>
       wrote_under (cgroup_dir child) (cgroup_limit_writes child c m) out evs)
     (setup_cgroup_limits w child c m s)"
  unfolding setup_cgroup_limits_def cgroup_mkdir_def mkdir_safe_def
  apply (intro vcg holds_weaken [OF cpu_holds])
  apply (auto simp: emits_def wrote_under_def errno_step_case simp del: prefix_snoc split: ret.splits)
  done







subsection \<open>Identity mapping and the barrier\<close>

lemma proc_path_inj [simp]: "(proc_path p a = proc_path p b) = (a = b)"
  by (simp add: proc_path_def)

lemma sint_small:
  assumes "unat (i :: 32 word) < 2 ^ 31"
  shows "sint i = int (unat i)"
proof -
  have "int (unat i) < int (2 ^ 31)" using assms by (simp only: of_nat_less_iff)
  then have u: "uint i < 2 ^ 31" by simp
  have "sint i = signed_take_bit 31 (uint i)" by (simp add: sint_uint)
  also have "\<dots> = uint i"
  proof (rule signed_take_bit_int_eq_self)
    have "0 \<le> uint i" by simp
    moreover have "- (2 ^ 31) \<le> (0 :: int)" by simp
    ultimately show "- (2 ^ 31) \<le> uint i" by (rule order_trans [rotated])
    show "uint i < 2 ^ 31" by (rule u)
  qed
  finally show ?thesis by simp
qed

lemma id_map_line_small: "unat i < 2 ^ 31 \<Longrightarrow> id_map_line i = map_line i"
  by (simp only: id_map_line_def map_line_def sint_small show_int_def) simp

lemma uid_gid_holds:
  assumes "unat (real_uid w) < 2 ^ 31" "unat (real_gid w) < 2 ^ 31"
  shows "holds (\<lambda>r s'. extends s s' \<and> id_map_protocol w child r (new_events s s'))
     (setup_uid_gid_map w child s)"
  unfolding setup_uid_gid_map_def write_file_def
    id_map_line_small [OF assms(1)] id_map_line_small [OF assms(2)]
  apply (intro vcg)
  apply (auto simp: id_map_protocol_def id_map_writes_def extends_length)
  done

lemma no_release_in_id_map:
  assumes "id_map_protocol w child r evs"
  shows "barrier_release \<notin> set (map fst evs)"
proof
  assume "barrier_release \<in> set (map fst evs)"
  then have a: "barrier_release \<in> set (filter is_write (map fst evs))"
    by (simp add: barrier_release_def)
  have "prefix (filter is_write (map fst evs)) (id_map_writes w child)"
    using assms by (simp add: id_map_protocol_def)
  then have "set (filter is_write (map fst evs)) \<subseteq> set (id_map_writes w child)"
    by (rule set_mono_prefix)
  with a have "barrier_release \<in> set (id_map_writes w child)" by (rule subsetD [rotated])
  then show False
    by (simp add: id_map_writes_def barrier_release_def)
qed

lemma parent_cgroup_extends: "extends s (snd (parent_cgroup w opts child s))"
proof -
  obtain out1 s1 where c: "setup_cgroup_limits w child (cpus opts) (memory opts) s = (out1, s1)"
    by (cases "setup_cgroup_limits w child (cpus opts) (memory opts) s")
  have e: "extends s s1"
    using holdsD [OF cgroup_holds c] by (auto simp: emits_def extends_def)
  show ?thesis
    using e by (cases out1) (auto simp: parent_cgroup_def c sys_def Let_def)
qed

lemma parent_bridge_extends: "extends s (snd (parent_bridge w opts child s))"
proof -
  obtain g cfg where g: "generate_interface_names child = (g, cfg)"
    by (cases "generate_interface_names child")
  have a: "extends s (snd (parent_cgroup w opts child s))"
    by (rule parent_cgroup_extends)
  have b: "extends s (snd (parent_cgroup w opts child (step (step s c1 \<rho>1) c2 \<rho>2)))"
    for c1 c2 \<rho>1 \<rho>2
    by (rule extends_trans [OF _ parent_cgroup_extends]) simp
  show ?thesis
    using a b by (simp add: parent_bridge_def g sys_def Let_def)
qed

lemma spawn_parent:
  assumes pipe: "sys_ret w (trace s) Pipe = Ok p0"
    and clone: "sys_ret w (trace s @ [(Pipe, Ok p0)]) (Clone3 (clone_flags opts)) = Ok n" "0 < n"
  shows "microbox_sandbox_spawn w opts process s =
           (let s2 = step (step s Pipe (Ok p0)) (Clone3 (clone_flags opts)) (Ok n);
                process' = process\<lparr>pid := int n\<rparr>;
                (r, s3) = setup_uid_gid_map w (int n) s2 in
            if r < 0 then ((Return (- errno s3), process'), s3)
            else
              let (out, s4) = parent_bridge w opts (int n) s3 in ((out, process'), s4))"
proof -
  have c: "sys_ret w (trace (step s Pipe (Ok p0))) (Clone3 (clone_flags opts)) = Ok n"
    using clone(1) by simp
  show ?thesis
    using clone(2)
    by (simp add: microbox_sandbox_spawn_def sys_def Let_def pipe c clone(1) case_prod_beta)
qed

lemma uid_gid_world_ok:
  "setup_uid_gid_map world_ok 4242 s_init =
     (0, \<lparr>errno = 0, trace =
       [(Open ''/proc/4242/setgroups'' {O_WRONLY}, Ok 0),
        (Write (File ''/proc/4242/setgroups'') ''deny'', Ok 4),
        (Close (File ''/proc/4242/setgroups''), Ok 0),
        (Open ''/proc/4242/uid_map'' {O_WRONLY}, Ok 0),
        (Write (File ''/proc/4242/uid_map'') (''0 1000 1'' @ [CHR 0x0A]), Ok 9),
        (Close (File ''/proc/4242/uid_map''), Ok 0),
        (Open ''/proc/4242/gid_map'' {O_WRONLY}, Ok 0),
        (Write (File ''/proc/4242/gid_map'') (''0 1000 1'' @ [CHR 0x0A]), Ok 9),
        (Close (File ''/proc/4242/gid_map''), Ok 0)]\<rparr>)"
  by (simp add: setup_uid_gid_map_def write_file_def Let_def s_init_def proc_path_def
      id_map_line_def show_int_def show_nat.simps digit_char_def step_def)

text \<open>
  Claim C7, as the code has it.  In the parent, that is when \<^verbatim>\<open>clone3\<close> has returned the
  pid of the child, \<^verbatim>\<open>microbox_sandbox_spawn\<close> goes on with the identity mapping and
  releases the barrier only after it, and only when it returned 0.  The mapping writes,
  in this order and each with one \<^verbatim>\<open>write\<close> call of the whole string, \<open>deny\<close> to
  \<^verbatim>\<open>/proc/<pid>/setgroups\<close>, the line \<open>0 <uid> 1\<close> to \<^verbatim>\<open>uid_map\<close> and the line
  \<open>0 <gid> 1\<close> to \<^verbatim>\<open>gid_map\<close>, each line ending with a newline; a failed write of any of
  the three, and a short write of the uid or the gid line, make it return -1.  The ids
  are below \<open>2 ^ 31\<close>.
\<close>

theorem uid_gid_map_protocol:
  assumes run: "microbox_sandbox_spawn w opts process s = ((out, process'), s')"
    and pipe: "sys_ret w (trace s) Pipe = Ok p0"
    and clone: "sys_ret w (trace s @ [(Pipe, Ok p0)]) (Clone3 (clone_flags opts)) = Ok n" "0 < n"
    and ids: "unat (real_uid w) < 2 ^ 31" "unat (real_gid w) < 2 ^ 31"
  shows "\<exists>rest. new_events s s' = (Pipe, Ok p0) # (Clone3 (clone_flags opts), Ok n) # rest
            \<and> released_after_id_map w (int n) rest"
proof -
  let ?s2 = "step (step s Pipe (Ok p0)) (Clone3 (clone_flags opts)) (Ok n)"
  obtain r s3 where m: "setup_uid_gid_map w (int n) ?s2 = (r, s3)"
    by (cases "setup_uid_gid_map w (int n) ?s2")
  from holdsD [OF uid_gid_holds [OF ids] m]
  have e3: "extends ?s2 s3" and p0: "id_map_protocol w (int n) r (new_events ?s2 s3)"
    by simp_all
  obtain mid where mid: "trace s3 = trace ?s2 @ mid"
    using e3 by (auto simp: extends_def)
  have "new_events ?s2 s3 = mid"
    by (simp add: new_events_def mid)
  then have p: "id_map_protocol w (int n) r mid" using p0 by simp
  have nr: "barrier_release \<notin> set (map fst mid)"
    using p by (rule no_release_in_id_map)
  have r01: "r = 0 \<or> r = - 1" using p by (simp add: id_map_protocol_def)
  show ?thesis
  proof (cases "r < 0")
    case True
    then have "s' = s3"
      using run by (simp add: spawn_parent [OF pipe clone] m Let_def)
    then have "new_events s s' = (Pipe, Ok p0) # (Clone3 (clone_flags opts), Ok n) # mid"
      by (simp add: new_events_def mid)
    moreover have "released_after_id_map w (int n) mid"
      unfolding released_after_id_map_def
      apply (rule exI [of _ r], rule exI [of _ mid], rule exI [of _ "[]"])
      using p nr by simp
    ultimately show ?thesis by blast
  next
    case False
    then have r0: "r = 0" using r01 by auto
    have s': "s' = snd (parent_bridge w opts (int n) s3)"
      using run False by (simp add: spawn_parent [OF pipe clone] m Let_def case_prod_beta)
    have "extends s3 s'" unfolding s' by (rule parent_bridge_extends)
    then obtain post where post: "trace s' = trace s3 @ post"
      by (auto simp: extends_def)
    have "new_events s s'
            = (Pipe, Ok p0) # (Clone3 (clone_flags opts), Ok n) # (mid @ post)"
      by (simp add: new_events_def mid post)
    moreover have "released_after_id_map w (int n) (mid @ post)"
      unfolding released_after_id_map_def
      apply (rule exI [of _ r], rule exI [of _ mid], rule exI [of _ post])
      using p nr r0 by simp
    ultimately show ?thesis by blast
  qed
qed

lemma spawn_world_ok:
  "microbox_sandbox_spawn world_ok opts0 proc0 s_init =
     ((Return 0, \<lparr>pidfd = 5, pid = 4242\<rparr>),
      \<lparr>errno = 0, trace =
         [(Pipe, Ok 0),
          (Clone3 (clone_flags opts0), Ok 4242),
          (Open ''/proc/4242/setgroups'' {O_WRONLY}, Ok 0),
          (Write (File ''/proc/4242/setgroups'') ''deny'', Ok 4),
          (Close (File ''/proc/4242/setgroups''), Ok 0),
          (Open ''/proc/4242/uid_map'' {O_WRONLY}, Ok 0),
          (Write (File ''/proc/4242/uid_map'') (''0 1000 1'' @ [CHR 0x0A]), Ok 9),
          (Close (File ''/proc/4242/uid_map''), Ok 0),
          (Open ''/proc/4242/gid_map'' {O_WRONLY}, Ok 0),
          (Write (File ''/proc/4242/gid_map'') (''0 1000 1'' @ [CHR 0x0A]), Ok 9),
          (Close (File ''/proc/4242/gid_map''), Ok 0),
          (Open ''/sys/fs/cgroup/cgroup.subtree_control'' {O_WRONLY}, Ok 0),
          (Write (File ''/sys/fs/cgroup/cgroup.subtree_control'') ''+memory'', Ok 7),
          (Write (File ''/sys/fs/cgroup/cgroup.subtree_control'') ''+cpu'', Ok 4),
          (Close (File ''/sys/fs/cgroup/cgroup.subtree_control''), Ok 0),
          (Mkdir ''/sys/fs/cgroup/microbox-4242'' 493, Ok 0),
          (Open ''/sys/fs/cgroup/microbox-4242/cgroup.procs'' {O_WRONLY}, Ok 0),
          (Write (File ''/sys/fs/cgroup/microbox-4242/cgroup.procs'') ''4242'', Ok 4),
          (Close (File ''/sys/fs/cgroup/microbox-4242/cgroup.procs''), Ok 0),
          (Write PipeWrite ''X'', Ok 1),
          (Close PipeWrite, Ok 0)]\<rparr>)"
  by (simp add: microbox_sandbox_spawn_def parent_bridge_def parent_cgroup_def
      setup_uid_gid_map_def write_file_def setup_cgroup_limits_def cgroup_mkdir_def
      cgroup_cpu_def cgroup_memory_def cgroup_attach_def cgroup_dir_def mkdir_safe_def
      dgt_zero_def
      Let_def s_init_def proc_path_def opts0_def proc0_def
      id_map_line_def show_int_def show_nat.simps digit_char_def step_def)

theorem uid_gid_map_protocol_witness:
  "released_after_id_map world_ok 4242
     [(Open ''/proc/4242/setgroups'' {O_WRONLY}, Ok 0),
      (Write (File ''/proc/4242/setgroups'') ''deny'', Ok 4),
      (Close (File ''/proc/4242/setgroups''), Ok 0),
      (Open ''/proc/4242/uid_map'' {O_WRONLY}, Ok 0),
      (Write (File ''/proc/4242/uid_map'') (''0 1000 1'' @ [CHR 0x0A]), Ok 9),
      (Close (File ''/proc/4242/uid_map''), Ok 0),
      (Open ''/proc/4242/gid_map'' {O_WRONLY}, Ok 0),
      (Write (File ''/proc/4242/gid_map'') (''0 1000 1'' @ [CHR 0x0A]), Ok 9),
      (Close (File ''/proc/4242/gid_map''), Ok 0),
      (Open ''/sys/fs/cgroup/cgroup.subtree_control'' {O_WRONLY}, Ok 0),
      (Write (File ''/sys/fs/cgroup/cgroup.subtree_control'') ''+memory'', Ok 7),
      (Write (File ''/sys/fs/cgroup/cgroup.subtree_control'') ''+cpu'', Ok 4),
      (Close (File ''/sys/fs/cgroup/cgroup.subtree_control''), Ok 0),
      (Mkdir ''/sys/fs/cgroup/microbox-4242'' 493, Ok 0),
      (Open ''/sys/fs/cgroup/microbox-4242/cgroup.procs'' {O_WRONLY}, Ok 0),
      (Write (File ''/sys/fs/cgroup/microbox-4242/cgroup.procs'') ''4242'', Ok 4),
      (Close (File ''/sys/fs/cgroup/microbox-4242/cgroup.procs''), Ok 0),
      (Write PipeWrite ''X'', Ok 1),
      (Close PipeWrite, Ok 0)]
   \<and> map_line (real_uid world_ok) = ''0 1000 1'' @ [CHR 0x0A]"
proof -
  have pipe: "sys_ret world_ok (trace s_init) Pipe = Ok 0"
    by (simp add: world_ok_def)
  have clone: "sys_ret world_ok (trace s_init @ [(Pipe, Ok 0)]) (Clone3 (clone_flags opts0)) = Ok 4242"
    by (simp add: world_ok_def)
  have ids: "unat (real_uid world_ok) < 2 ^ 31" "unat (real_gid world_ok) < 2 ^ 31"
    by simp_all
  have line: "map_line (real_uid world_ok) = ''0 1000 1'' @ [CHR 0x0A]"
    by (simp add: map_line_def show_nat.simps digit_char_def)
  from uid_gid_map_protocol [OF spawn_world_ok pipe clone _ ids] line
  show ?thesis by simp
qed

text \<open>
  The text the claim gives for the uid map, \<open>0 1000 1\<close> for user 1000, is not what is
  written: the line has a trailing newline.
\<close>

theorem uid_map_text_counterexample:
  "calls s_init (snd (setup_uid_gid_map world_ok 4242 s_init)) =
     [Open ''/proc/4242/setgroups'' {O_WRONLY},
      Write (File ''/proc/4242/setgroups'') ''deny'',
      Close (File ''/proc/4242/setgroups''),
      Open ''/proc/4242/uid_map'' {O_WRONLY},
      Write (File ''/proc/4242/uid_map'') (''0 1000 1'' @ [CHR 0x0A]),
      Close (File ''/proc/4242/uid_map''),
      Open ''/proc/4242/gid_map'' {O_WRONLY},
      Write (File ''/proc/4242/gid_map'') (''0 1000 1'' @ [CHR 0x0A]),
      Close (File ''/proc/4242/gid_map'')]
   \<and> Write (File ''/proc/4242/uid_map'') ''0 1000 1''
       \<notin> set (calls s_init (snd (setup_uid_gid_map world_ok 4242 s_init)))"
  by (simp add: uid_gid_world_ok calls_def)

subsection \<open>Wait and teardown\<close>

lemma show_nat_short: "n < 1000 \<Longrightarrow> length (show_nat n) \<le> 3"
  by (simp add: show_nat.simps [of n] show_nat.simps [of "n div 10"]
      show_nat.simps [of "n div 10 div 10"])

lemma c_rem_bound: "\<bar>c_rem a 254\<bar> < 254"
  by (simp add: c_rem_def abs_mult sgn_if)

lemma show_int_short:
  assumes "\<bar>i\<bar> < 1000"
  shows "length (show_int i) \<le> 4"
proof (cases "i < 0")
  case True
  then have "nat (- i) < 1000" using assms by simp
  from show_nat_short [OF this] True show ?thesis by (simp add: show_int_def)
next
  case False
  then have "nat i < 1000" using assms by simp
  from show_nat_short [OF this] False show ?thesis by (simp add: show_int_def)
qed

lemma veth_host_name:
  "veth_host (snd (generate_interface_names container_id)) = host_veth_name container_id"
proof -
  have "\<bar>c_rem container_id 254\<bar> < 1000" using c_rem_bound [of container_id] by linarith
  then have "length (show_int (c_rem container_id 254)) \<le> 4" by (rule show_int_short)
  then show ?thesis
    by (simp add: generate_interface_names_def Let_def host_veth_name_def snprintf_buf_def)
qed

lemma host_veth_name_mod:
  "0 \<le> container_id \<Longrightarrow>
   host_veth_name container_id = ''mbx'' @ show_nat (nat container_id mod 254) @ ''h''"
  by (auto simp: host_veth_name_def c_rem_def sgn_if show_int_def nat_mod_distrib
      dest: pos_mod_sign [of 254 container_id])

lemma holds_nl_reply:
  "(\<And>err. x = Nl_error err \<Longrightarrow> holds P (a err)) \<Longrightarrow> (x = Nl_other \<Longrightarrow> holds P b) \<Longrightarrow>
   holds P (case x of Nl_error err \<Rightarrow> a err | Nl_other \<Rightarrow> b)"
  by (cases x) simp_all

lemma found_index_simps [simp]:
  "found_index (Err e) = None"
  "found_index (Ok n) = (if 0 < sint (word_of_int (int n) :: 32 word)
                         then Some (sint (word_of_int (int n) :: 32 word)) else None)"
  by (simp_all add: found_index_def)

lemma found_index_code:
  "found_index \<rho>
     = (if 0 < (if \<exists>e. \<rho> = Err e then 0 else sint (word_of_int (rc_of \<rho>) :: 32 word))
        then Some (sint (word_of_int (rc_of \<rho>) :: 32 word)) else None)"
  by (cases \<rho>) simp_all

lemma cleanup_holds:
  "holds (\<lambda>r s'. \<exists>evs. emits s s' evs \<and> teardown_protocol container_id r evs)
     (microbox_cleanup_network_interfaces w container_id s)"
proof -
  obtain g cfg where g: "generate_interface_names container_id = (g, cfg)"
    by (cases "generate_interface_names container_id")
  have g0: "g = 0" using g by (simp add: generate_interface_names_def Let_def)
  have nm: "veth_host cfg = host_veth_name container_id"
    using veth_host_name [of container_id] g by simp
  show ?thesis
    unfolding microbox_cleanup_network_interfaces_def g netlink_open_def
      netlink_delete_interface_def netlink_close_def netlink_get_interface_index_def
      netlink_send_request_def netlink_recv_response_def
    apply (intro vcg holds_nl_reply)
    apply (auto simp: g0 nm emits_def teardown_protocol_def delete_request_def not_Err_iff
        found_index_code)
    done
qed

lemma wait_run:
  assumes "sys_ret w (trace s) (Waitid_pidfd_exited (pidfd p)) = Ok n"
  shows "snd (microbox_sandbox_wait w (Some p) s)
           = snd (microbox_cleanup_network_interfaces w (pid p)
                    (step s (Waitid_pidfd_exited (pidfd p)) (Ok n)))"
  using assms by (simp add: microbox_sandbox_wait_def sys_def case_prod_beta Let_def)

lemma wait_first_event:
  "\<exists>\<rho> rest. new_events s (snd (microbox_sandbox_wait w (Some p) s))
              = (Waitid_pidfd_exited (pidfd p), \<rho>) # rest"
proof (cases "sys_ret w (trace s) (Waitid_pidfd_exited (pidfd p))")
  case (Err e)
  then show ?thesis
    by (simp add: microbox_sandbox_wait_def sys_def)
next
  case (Ok n)
  let ?s1 = "step s (Waitid_pidfd_exited (pidfd p)) (Ok n)"
  obtain rc s2 where c: "microbox_cleanup_network_interfaces w (pid p) ?s1 = (rc, s2)"
    by (cases "microbox_cleanup_network_interfaces w (pid p) ?s1")
  from holdsD [OF cleanup_holds c] obtain tevs where "emits ?s1 s2 tevs" by auto
  then have "new_events s s2 = (Waitid_pidfd_exited (pidfd p), Ok n) # tevs"
    by (simp add: emits_def new_events_def)
  then show ?thesis using wait_run [OF Ok] c by simp
qed

lemma delete_missing_interface:
  assumes "found_index (sys_ret w (trace s) (If_nametoindex name)) = None"
  shows "fst (fst (netlink_delete_interface w h name s)) = 0
         \<and> new_events s (snd (netlink_delete_interface w h name s))
             = [(If_nametoindex name, sys_ret w (trace s) (If_nametoindex name))]"
proof (cases "sys_ret w (trace s) (If_nametoindex name)")
  case (Err e)
  then show ?thesis
    by (simp add: netlink_delete_interface_def netlink_get_interface_index_def sys_def
        new_events_def)
next
  case (Ok n)
  then have "\<not> 0 < sint (word_of_int (int n) :: 32 word)"
    using assms by (simp split: if_splits)
  then show ?thesis using Ok
    by (auto simp: netlink_delete_interface_def netlink_get_interface_index_def sys_def
        new_events_def Let_def)
qed

text \<open>
  Claim C9.  When \<^verbatim>\<open>waitid\<close> has succeeded, \<^verbatim>\<open>microbox_sandbox_wait\<close> goes on with
  \<^verbatim>\<open>microbox_cleanup_network_interfaces\<close> for the recorded pid in every case (the
  function is given the process record and no network mode), and ends in the state that
  call leaves.  The teardown opens a netlink socket, looks up the interface
  \<open>mbx<pid % 254>h\<close> and closes the socket; when the lookup finds an index it requests
  \<^verbatim>\<open>RTM_DELLINK\<close> for it, and when it finds none it sends nothing and returns 0.
  \<^verbatim>\<open>netlink_delete_interface\<close> returns 0 for a name without index, after the lookup
  alone.
\<close>

theorem teardown_after_wait:
  assumes run: "microbox_sandbox_wait w (Some p) s = (r, s')"
    and waited: "sys_ret w (trace s) (Waitid_pidfd_exited (pidfd p)) = Ok n"
  shows "s' = snd (microbox_cleanup_network_interfaces w (pid p)
                     (step s (Waitid_pidfd_exited (pidfd p)) (Ok n)))
         \<and> new_events s s'
             = (Waitid_pidfd_exited (pidfd p), Ok n)
               # new_events (step s (Waitid_pidfd_exited (pidfd p)) (Ok n)) s'
         \<and> teardown_protocol (pid p)
              (fst (microbox_cleanup_network_interfaces w (pid p)
                      (step s (Waitid_pidfd_exited (pidfd p)) (Ok n))))
              (new_events (step s (Waitid_pidfd_exited (pidfd p)) (Ok n)) s')
         \<and> (0 \<le> pid p \<longrightarrow>
              host_veth_name (pid p) = ''mbx'' @ show_nat (nat (pid p) mod 254) @ ''h'')
         \<and> (\<forall>h name s0.
               found_index (sys_ret w (trace s0) (If_nametoindex name)) = None \<longrightarrow>
               fst (fst (netlink_delete_interface w h name s0)) = 0
               \<and> new_events s0 (snd (netlink_delete_interface w h name s0))
                   = [(If_nametoindex name, sys_ret w (trace s0) (If_nametoindex name))])"
proof -
  let ?s1 = "step s (Waitid_pidfd_exited (pidfd p)) (Ok n)"
  obtain rc s2 where c: "microbox_cleanup_network_interfaces w (pid p) ?s1 = (rc, s2)"
    by (cases "microbox_cleanup_network_interfaces w (pid p) ?s1")
  have s': "s' = s2" using wait_run [OF waited] run c by simp
  from holdsD [OF cleanup_holds c] obtain tevs where
    tevs: "emits ?s1 s2 tevs" "teardown_protocol (pid p) rc tevs" by auto
  have a: "new_events ?s1 s2 = tevs" using tevs(1) by (rule emits_new_events)
  have b: "new_events s s2 = (Waitid_pidfd_exited (pidfd p), Ok n) # tevs"
    using tevs(1) by (simp add: emits_def new_events_def)
  have d: "0 \<le> pid p \<longrightarrow>
      host_veth_name (pid p) = ''mbx'' @ show_nat (nat (pid p) mod 254) @ ''h''"
    using host_veth_name_mod [of "pid p"] by simp
  have e: "\<forall>h name s0.
      found_index (sys_ret w (trace s0) (If_nametoindex name)) = None \<longrightarrow>
      fst (fst (netlink_delete_interface w h name s0)) = 0
      \<and> new_events s0 (snd (netlink_delete_interface w h name s0))
          = [(If_nametoindex name, sys_ret w (trace s0) (If_nametoindex name))]"
    using delete_missing_interface [of w] by blast
  show ?thesis
    unfolding s' c fst_conv snd_conv a b
    using tevs(2) d e by (intro conjI refl)
qed

lemma names_4242:
  "generate_interface_names 4242 =
     (0, \<lparr>bridge_name = ''microbox0'', veth_host = ''mbx178h'', veth_container = ''mbx178c'',
         container_ip = 0xAC140000 + 178 + 2, bridge_ip = 0xAC140000 + 1, prefix_len = 16\<rparr>)"
  unfolding generate_interface_names_def Let_def c_rem_def
  by (simp add: snprintf_buf_def show_int_def show_nat.simps digit_char_def
      MICROBOX_DEFAULT_BRIDGE_IP_SUBNET_def)

lemma host_veth_4242: "host_veth_name 4242 = ''mbx178h''"
  unfolding host_veth_name_def c_rem_def
  by (simp add: show_int_def show_nat.simps digit_char_def)

lemma wait_world_ok:
  "microbox_sandbox_wait world_ok (Some proc0) s_init =
     (0, \<lparr>errno = 19, trace =
        [(Waitid_pidfd_exited 5, Ok 0),
         (Nl_socket, Ok 0),
         (Nl_bind, Ok 0),
         (If_nametoindex ''mbx178h'', Ok 0),
         (Close NlSock, Ok 0)]\<rparr>)"
  by (simp add: microbox_sandbox_wait_def microbox_cleanup_network_interfaces_def
      names_4242 netlink_open_def netlink_delete_interface_def
      netlink_get_interface_index_def netlink_close_def proc0_def Let_def step_def s_init_def)

lemma sys_world_veth:
  "sys world_veth c s =
     (case c of If_nametoindex name \<Rightarrow> (7, step s c (Ok 7)) | _ \<Rightarrow> (0, step s c (Ok 0)))"
  by (simp add: sys_def world_veth_def split: syscall.splits)

lemma world_veth_fields:
  "wait_info world_veth tr = (CLD_EXITED, 0)" "nl_msg world_veth tr = Nl_error 0"
  "nl_truncated world_veth tr = False"
  by (simp_all add: world_veth_def world_ok_def)

lemma wait_world_veth:
  "microbox_sandbox_wait world_veth (Some proc0) s_init =
     (0, \<lparr>errno = 0, trace =
        [(Waitid_pidfd_exited 5, Ok 0),
         (Nl_socket, Ok 0),
         (Nl_bind, Ok 0),
         (If_nametoindex ''mbx178h'', Ok 7),
         (Nl_sendmsg RTM_DELLINK 1 7, Ok 0),
         (Nl_recvmsg, Ok 0),
         (Close NlSock, Ok 0)]\<rparr>)"
  by (simp add: microbox_sandbox_wait_def microbox_cleanup_network_interfaces_def
      names_4242 netlink_open_def netlink_delete_interface_def netlink_send_request_def
      netlink_recv_response_def sys_world_veth world_veth_fields
      netlink_get_interface_index_def netlink_close_def proc0_def Let_def step_def s_init_def)

theorem teardown_after_wait_witness:
  "teardown_protocol 4242
     (fst (microbox_cleanup_network_interfaces world_ok 4242
             (step s_init (Waitid_pidfd_exited 5) (Ok 0))))
     [(Nl_socket, Ok 0),
      (Nl_bind, Ok 0),
      (If_nametoindex ''mbx178h'', Ok 0),
      (Close NlSock, Ok 0)]
   \<and> fst (microbox_cleanup_network_interfaces world_ok 4242
             (step s_init (Waitid_pidfd_exited 5) (Ok 0))) = 0
   \<and> teardown_protocol 4242
        (fst (microbox_cleanup_network_interfaces world_veth 4242
                (step s_init (Waitid_pidfd_exited 5) (Ok 0))))
        [(Nl_socket, Ok 0),
         (Nl_bind, Ok 0),
         (If_nametoindex ''mbx178h'', Ok 7),
         (Nl_sendmsg RTM_DELLINK 1 7, Ok 0),
         (Nl_recvmsg, Ok 0),
         (Close NlSock, Ok 0)]
   \<and> host_veth_name 4242 = ''mbx178h''
   \<and> fst (fst (netlink_delete_interface world_ok \<lparr>nl_fd = 0, nl_seq = 1\<rparr> ''mbx178h'' s_init)) = 0"
proof -
  have ok: "sys_ret world_ok tr (Waitid_pidfd_exited (pidfd proc0)) = Ok 0" for tr
    by (simp add: world_ok_def)
  have veth: "sys_ret world_veth tr (Waitid_pidfd_exited (pidfd proc0)) = Ok 0" for tr
    by (simp add: world_veth_def)
  have none: "found_index (sys_ret world_ok (trace s_init) (If_nametoindex ''mbx178h'')) = None"
    by (simp add: world_ok_def)
  have rc: "fst (microbox_cleanup_network_interfaces world_ok 4242
             (step s_init (Waitid_pidfd_exited 5) (Ok 0))) = 0"
    by (simp add: microbox_cleanup_network_interfaces_def names_4242 netlink_open_def
        netlink_delete_interface_def netlink_get_interface_index_def netlink_close_def Let_def)
  from teardown_after_wait [OF wait_world_ok ok] none
  have a: "teardown_protocol 4242
     (fst (microbox_cleanup_network_interfaces world_ok 4242
             (step s_init (Waitid_pidfd_exited 5) (Ok 0))))
     [(Nl_socket, Ok 0), (Nl_bind, Ok 0), (If_nametoindex ''mbx178h'', Ok 0), (Close NlSock, Ok 0)]"
    and c: "fst (fst (netlink_delete_interface world_ok \<lparr>nl_fd = 0, nl_seq = 1\<rparr> ''mbx178h'' s_init)) = 0"
    by (simp_all add: proc0_def new_events_def step_def s_init_def)
  from teardown_after_wait [OF wait_world_veth veth]
  have b: "teardown_protocol 4242
        (fst (microbox_cleanup_network_interfaces world_veth 4242
                (step s_init (Waitid_pidfd_exited 5) (Ok 0))))
        [(Nl_socket, Ok 0), (Nl_bind, Ok 0), (If_nametoindex ''mbx178h'', Ok 7),
         (Nl_sendmsg RTM_DELLINK 1 7, Ok 0), (Nl_recvmsg, Ok 0), (Close NlSock, Ok 0)]"
    by (simp add: proc0_def new_events_def step_def s_init_def)
  show ?thesis using a b c rc host_veth_4242 by simp
qed

text \<open>
  Claim C5.  \<^verbatim>\<open>microbox_sandbox_wait\<close> returns \<open>-EINVAL\<close> for a NULL record; otherwise it
  calls \<^verbatim>\<open>waitid\<close> first; when that fails it returns the negated \<^verbatim>\<open>errno\<close>; when the child
  exited it returns the exit status, and when the child was killed or dumped it
  returns 128 plus the signal number.
\<close>

theorem wait_exit_code:
  "fst (microbox_sandbox_wait w None s) = - errno_val EINVAL
   \<and> (\<exists>\<rho> rest. new_events s (snd (microbox_sandbox_wait w (Some p) s))
                   = (Waitid_pidfd_exited (pidfd p), \<rho>) # rest)
   \<and> (\<forall>e. sys_ret w (trace s) (Waitid_pidfd_exited (pidfd p)) = Err e \<longrightarrow>
          fst (microbox_sandbox_wait w (Some p) s) = - errno_val e)
   \<and> (\<forall>n st. sys_ret w (trace s) (Waitid_pidfd_exited (pidfd p)) = Ok n \<longrightarrow>
          (wait_info w (trace s) = (CLD_EXITED, st) \<longrightarrow>
             fst (microbox_sandbox_wait w (Some p) s) = st)
          \<and> (wait_info w (trace s) = (CLD_KILLED, st) \<longrightarrow>
             fst (microbox_sandbox_wait w (Some p) s) = 128 + st)
          \<and> (wait_info w (trace s) = (CLD_DUMPED, st) \<longrightarrow>
             fst (microbox_sandbox_wait w (Some p) s) = 128 + st))"
proof -
  have first: "\<exists>\<rho> rest. new_events s (snd (microbox_sandbox_wait w (Some p) s))
                   = (Waitid_pidfd_exited (pidfd p), \<rho>) # rest"
    by (rule wait_first_event)
  have null: "fst (microbox_sandbox_wait w None s) = - errno_val EINVAL"
    by (simp add: microbox_sandbox_wait_def)
  have err: "\<forall>e. sys_ret w (trace s) (Waitid_pidfd_exited (pidfd p)) = Err e \<longrightarrow>
      fst (microbox_sandbox_wait w (Some p) s) = - errno_val e"
    by (simp add: microbox_sandbox_wait_def sys_def)
  have ok: "\<forall>n st. sys_ret w (trace s) (Waitid_pidfd_exited (pidfd p)) = Ok n \<longrightarrow>
          (wait_info w (trace s) = (CLD_EXITED, st) \<longrightarrow>
             fst (microbox_sandbox_wait w (Some p) s) = st)
          \<and> (wait_info w (trace s) = (CLD_KILLED, st) \<longrightarrow>
             fst (microbox_sandbox_wait w (Some p) s) = 128 + st)
          \<and> (wait_info w (trace s) = (CLD_DUMPED, st) \<longrightarrow>
             fst (microbox_sandbox_wait w (Some p) s) = 128 + st)"
    by (simp add: microbox_sandbox_wait_def sys_def case_prod_beta)
  show ?thesis
    by (intro conjI null first err ok)
qed

lemma sys_wait_worlds [simp]:
  "sys_ret world_exit3 tr c = sys_ret world_ok tr c"
  "sys_ret world_killed tr c = sys_ret world_ok tr c"
  "sys_ret world_dumped tr c = sys_ret world_ok tr c"
  "sys_ret world_nowait tr c = Err EINVAL"
  "wait_info world_exit3 tr = (CLD_EXITED, 3)"
  "wait_info world_killed tr = (CLD_KILLED, 9)"
  "wait_info world_dumped tr = (CLD_DUMPED, 11)"
  by (simp_all add: world_exit3_def world_killed_def world_dumped_def world_nowait_def)

theorem wait_exit_code_witness:
  "fst (microbox_sandbox_wait world_exit3 (Some proc0) s_init) = 3
   \<and> fst (microbox_sandbox_wait world_killed (Some proc0) s_init) = 128 + 9
   \<and> fst (microbox_sandbox_wait world_dumped (Some proc0) s_init) = 128 + 11
   \<and> fst (microbox_sandbox_wait world_nowait (Some proc0) s_init) = - 22
   \<and> fst (microbox_sandbox_wait world_ok None s_init) = - 22"
proof -
  have ok: "sys_ret world_ok tr (Waitid_pidfd_exited 5) = Ok 0" for tr
    by (simp add: world_ok_def)
  have a: "fst (microbox_sandbox_wait world_exit3 (Some proc0) s_init) = 3"
    using wait_exit_code [of world_exit3 s_init proc0] by (simp add: ok proc0_def)
  have b: "fst (microbox_sandbox_wait world_killed (Some proc0) s_init) = 128 + 9"
    using wait_exit_code [of world_killed s_init proc0] by (simp add: ok proc0_def)
  have c: "fst (microbox_sandbox_wait world_dumped (Some proc0) s_init) = 128 + 11"
    using wait_exit_code [of world_dumped s_init proc0] by (simp add: ok proc0_def)
  have d: "fst (microbox_sandbox_wait world_nowait (Some proc0) s_init) = - 22"
    using wait_exit_code [of world_nowait s_init proc0] by (simp add: proc0_def)
  have e: "fst (microbox_sandbox_wait world_ok None s_init) = - 22"
    using wait_exit_code [of world_ok s_init proc0] by simp
  show ?thesis using a b c d e by simp
qed

subsection \<open>The seccomp filter\<close>

lemma name_in_list_iff: "(name_in_list name xs \<noteq> 0) = (name \<in> set xs)"
  by (induction xs) auto

lemma add_rules_holds:
  "holds (\<lambda>r s'. \<exists>evs. emits s s' evs
       \<and> (\<forall>e \<in> set evs. \<exists>nr. fst e = Seccomp_rule_add (SCMP_ACT_ERRNO ENOSYS) nr)
       \<and> (r < 0 \<longrightarrow> 0 < errno s')
       \<and> (0 \<le> r \<longrightarrow> r = 0 \<and> (\<forall>e \<in> set evs. \<exists>n. snd e = Ok n)
            \<and> {nr. \<exists>\<rho>. (Seccomp_rule_add (SCMP_ACT_ERRNO ENOSYS) nr, \<rho>) \<in> set evs}
              = {nr. \<exists>name \<in> set deny. name \<noteq> []
                    \<and> \<not> (allow_ovr \<noteq> None \<and> name \<in> set (the allow_ovr))
                    \<and> resolve_name w name = Some nr}))
     (seccomp_add_rules w deny allow_ovr s)"
proof (induction deny arbitrary: s)
  case Nil
  show ?case by (simp add: emits_def)
next
  case (Cons name deny)
  show ?case
    unfolding seccomp_add_rules.simps
    apply (intro vcg holds_option holds_weaken [OF Cons.IH])
        apply (simp_all add: name_in_list_iff)
     apply (clarsimp simp: emits_def)
    apply (clarsimp simp: emits_def)
    apply (rule conjI)
    subgoal for nr \<rho> by (cases \<rho>) auto
    apply (simp only: set_eq_iff mem_Collect_eq)
    apply blast
    done
qed

lemma run_rules:
  assumes "\<forall>e \<in> set evs. (\<exists>nr. fst e = Seccomp_rule_add a nr) \<and> (\<exists>n. snd e = Ok n)"
  shows "\<exists>rs. run_seccomp (evs @ rest) (Some f) inst
               = run_seccomp rest (Some (f\<lparr>rules := rules f @ rs\<rparr>)) inst
            \<and> fst ` set rs = {nr. \<exists>\<rho>. (Seccomp_rule_add a nr, \<rho>) \<in> set evs}
            \<and> (\<forall>p \<in> set rs. snd p = a)"
  using assms
proof (induction evs arbitrary: f)
  case Nil
  show ?case by (rule exI [of _ "[]"]) simp
next
  case (Cons e evs)
  obtain nr n where e: "e = (Seccomp_rule_add a nr, Ok n)"
    using Cons.prems by (cases e) auto
  have "\<forall>e \<in> set evs. (\<exists>nr. fst e = Seccomp_rule_add a nr) \<and> (\<exists>n. snd e = Ok n)"
    using Cons.prems by simp
  from Cons.IH [OF this, of "f\<lparr>rules := rules f @ [(nr, a)]\<rparr>"]
  obtain rs where rs:
    "run_seccomp (evs @ rest) (Some (f\<lparr>rules := rules f @ [(nr, a)]\<rparr>)) inst
       = run_seccomp rest (Some (f\<lparr>rules := rules f @ [(nr, a)] @ rs\<rparr>)) inst"
    "fst ` set rs = {nr. \<exists>\<rho>. (Seccomp_rule_add a nr, \<rho>) \<in> set evs}"
    "\<forall>p \<in> set rs. snd p = a"
    by auto
  show ?case
    apply (rule exI [of _ "(nr, a) # rs"])
    using rs by (auto simp: e)
qed

lemma map_of_uniform:
  "\<forall>p \<in> set rs. snd p = a \<Longrightarrow> map_of rs nr = (if nr \<in> fst ` set rs then Some a else None)"
  by (induction rs) auto

lemma setup_seccomp_holds:
  "holds (\<lambda>r s'. \<exists>evs. emits s s' evs
       \<and> (r = 0 \<longrightarrow> (\<exists>n0 revs n1 \<rho>.
              evs = (Seccomp_init SCMP_ACT_ALLOW, Ok n0) # revs @ [(Seccomp_load, Ok n1), (Seccomp_release, \<rho>)]
              \<and> (\<forall>e \<in> set revs. (\<exists>nr. fst e = Seccomp_rule_add (SCMP_ACT_ERRNO ENOSYS) nr)
                     \<and> (\<exists>n. snd e = Ok n))
              \<and> {nr. \<exists>\<rho>. (Seccomp_rule_add (SCMP_ACT_ERRNO ENOSYS) nr, \<rho>) \<in> set revs}
                = {nr. \<exists>name \<in> set deny. name \<noteq> []
                      \<and> \<not> (allow_ovr \<noteq> None \<and> name \<in> set (the allow_ovr))
                      \<and> resolve_name w name = Some nr})))
     (microbox_setup_seccomp w deny allow_ovr s)"
  unfolding microbox_setup_seccomp_def
  apply (intro vcg holds_weaken [OF add_rules_holds])
     apply (auto simp: emits_def not_Err_iff)
  done

lemma installed_after_setup:
  assumes evs: "evs = (Seccomp_init a0, Ok n0) # revs @ [(Seccomp_load, Ok n1), (Seccomp_release, \<rho>)]"
    and revs: "\<forall>e \<in> set revs. (\<exists>nr. fst e = Seccomp_rule_add a nr) \<and> (\<exists>n. snd e = Ok n)"
  shows "\<exists>f. installed_filter evs = Some f \<and> default_action f = a0
           \<and> (\<forall>nr. filter_action f nr
                 = (if \<exists>\<rho>. (Seccomp_rule_add a nr, \<rho>) \<in> set revs then a else a0))"
proof -
  let ?f = "\<lparr>default_action = a0, rules = []\<rparr>"
  from run_rules [OF revs, of "[(Seccomp_load, Ok n1), (Seccomp_release, \<rho>)]" ?f None]
  obtain rs where rs:
    "run_seccomp (revs @ [(Seccomp_load, Ok n1), (Seccomp_release, \<rho>)]) (Some ?f) None
       = run_seccomp [(Seccomp_load, Ok n1), (Seccomp_release, \<rho>)] (Some (?f\<lparr>rules := rules ?f @ rs\<rparr>)) None"
    "fst ` set rs = {nr. \<exists>\<rho>. (Seccomp_rule_add a nr, \<rho>) \<in> set revs}"
    "\<forall>p \<in> set rs. snd p = a"
    by blast
  have inst: "installed_filter evs = Some \<lparr>default_action = a0, rules = rs\<rparr>"
    unfolding installed_filter_def evs by (simp add: rs(1))
  have act: "filter_action \<lparr>default_action = a0, rules = rs\<rparr> nr
               = (if \<exists>\<rho>. (Seccomp_rule_add a nr, \<rho>) \<in> set revs then a else a0)" for nr
    unfolding filter_action_def by (simp add: map_of_uniform [OF rs(3)] rs(2))
  show ?thesis using inst act by simp
qed

text \<open>
  Claim C1.  Whenever \<^verbatim>\<open>microbox_setup_seccomp\<close> succeeds on the lists that
  \<^verbatim>\<open>merge_syscall_lists\<close> builds from the options, the calls it made install a filter whose
  default action is ALLOW and which answers \<^verbatim>\<open>ENOSYS\<close> exactly for the numbers of the names
  in (default denylist \<union> user deny list) - user allow list that resolve; every other
  number, that of an allowed name included, gets the default action.  The empty name
  resolves to nothing, as in libseccomp.
\<close>

theorem seccomp_effective_deny:
  assumes merge: "merge_syscall_lists opts = (m, deny, allow_ovr)"
    and run: "microbox_setup_seccomp w deny allow_ovr s = (0, s')"
    and empty: "resolve_name w [] = None"
  shows "\<exists>f. installed_filter (new_events s s') = Some f
           \<and> default_action f = SCMP_ACT_ALLOW
           \<and> (\<forall>nr. filter_action f nr
                 = (if \<exists>name \<in> (set docker_default_denylist \<union> set (syscalls_deny opts))
                                   - set (syscalls_allow opts). resolve_name w name = Some nr
                    then SCMP_ACT_ERRNO ENOSYS else SCMP_ACT_ALLOW))"
proof -
  from holdsD [OF setup_seccomp_holds run]
  obtain n0 revs n1 \<rho> where
    evs: "new_events s s'
            = (Seccomp_init SCMP_ACT_ALLOW, Ok n0) # revs @ [(Seccomp_load, Ok n1), (Seccomp_release, \<rho>)]"
    and revs: "\<forall>e \<in> set revs. (\<exists>nr. fst e = Seccomp_rule_add (SCMP_ACT_ERRNO ENOSYS) nr)
                  \<and> (\<exists>n. snd e = Ok n)"
    and nrs: "{nr. \<exists>\<rho>. (Seccomp_rule_add (SCMP_ACT_ERRNO ENOSYS) nr, \<rho>) \<in> set revs}
                = {nr. \<exists>name \<in> set deny. name \<noteq> []
                      \<and> \<not> (allow_ovr \<noteq> None \<and> name \<in> set (the allow_ovr))
                      \<and> resolve_name w name = Some nr}"
    by (auto dest: emits_new_events)
  have names: "(\<exists>name \<in> set deny. name \<noteq> []
                  \<and> \<not> (allow_ovr \<noteq> None \<and> name \<in> set (the allow_ovr))
                  \<and> resolve_name w name = Some nr)
             = (\<exists>name \<in> (set docker_default_denylist \<union> set (syscalls_deny opts))
                         - set (syscalls_allow opts). resolve_name w name = Some nr)" for nr
  proof -
    have ne: "name \<noteq> []" if "resolve_name w name = Some nr" for name
      using that empty by auto
    show ?thesis
      using merge by (auto simp: merge_syscall_lists_def split: if_splits dest: ne)
  qed
  have added: "(\<exists>\<rho>. (Seccomp_rule_add (SCMP_ACT_ERRNO ENOSYS) nr, \<rho>) \<in> set revs)
             = (\<exists>name \<in> (set docker_default_denylist \<union> set (syscalls_deny opts))
                         - set (syscalls_allow opts). resolve_name w name = Some nr)" for nr
    using nrs names [of nr] by (simp add: set_eq_iff)
  from installed_after_setup [OF evs revs]
  show ?thesis by (simp only: added)
qed

lemma merge_opts0:
  "merge_syscall_lists opts0 = (0, docker_default_denylist @ [''chroot''], Some [''mount''])"
  by (simp add: merge_syscall_lists_def opts0_def)

lemma seccomp_world_ok:
  "microbox_setup_seccomp world_ok (docker_default_denylist @ [''chroot'']) (Some [''mount'']) s_init =
     (0, \<lparr>errno = 0, trace =
        [(Seccomp_init SCMP_ACT_ALLOW, Ok 0),
         (Seccomp_rule_add (SCMP_ACT_ERRNO ENOSYS) 321, Ok 0),
         (Seccomp_rule_add (SCMP_ACT_ERRNO ENOSYS) 101, Ok 0),
         (Seccomp_rule_add (SCMP_ACT_ERRNO ENOSYS) 161, Ok 0),
         (Seccomp_load, Ok 0), (Seccomp_release, Ok 0)]\<rparr>)"
  unfolding microbox_setup_seccomp_def docker_default_denylist_def
  by (simp add: step_def s_init_def)

theorem seccomp_effective_deny_witness:
  "merge_syscall_lists opts0 = (0, docker_default_denylist @ [''chroot''], Some [''mount''])
   \<and> fst (microbox_setup_seccomp world_ok (docker_default_denylist @ [''chroot''])
            (Some [''mount'']) s_init) = 0
   \<and> resolve_name world_ok [] = None
   \<and> default_action (the (installed_filter (new_events s_init
         (snd (microbox_setup_seccomp world_ok (docker_default_denylist @ [''chroot''])
            (Some [''mount'']) s_init))))) = SCMP_ACT_ALLOW
   \<and> filter_action (the (installed_filter (new_events s_init
         (snd (microbox_setup_seccomp world_ok (docker_default_denylist @ [''chroot''])
            (Some [''mount'']) s_init))))) 161 = SCMP_ACT_ERRNO ENOSYS
   \<and> filter_action (the (installed_filter (new_events s_init
         (snd (microbox_setup_seccomp world_ok (docker_default_denylist @ [''chroot''])
            (Some [''mount'']) s_init))))) 101 = SCMP_ACT_ERRNO ENOSYS
   \<and> filter_action (the (installed_filter (new_events s_init
         (snd (microbox_setup_seccomp world_ok (docker_default_denylist @ [''chroot''])
            (Some [''mount'']) s_init))))) 165 = SCMP_ACT_ALLOW"
proof -
  have e: "resolve_name world_ok [] = None"
    by (simp add: world_ok_def)
  from seccomp_effective_deny [OF merge_opts0 seccomp_world_ok e]
  obtain f where f: "installed_filter (new_events s_init \<lparr>errno = 0, trace =
        [(Seccomp_init SCMP_ACT_ALLOW, Ok 0),
         (Seccomp_rule_add (SCMP_ACT_ERRNO ENOSYS) 321, Ok 0),
         (Seccomp_rule_add (SCMP_ACT_ERRNO ENOSYS) 101, Ok 0),
         (Seccomp_rule_add (SCMP_ACT_ERRNO ENOSYS) 161, Ok 0),
         (Seccomp_load, Ok 0), (Seccomp_release, Ok 0)]\<rparr>) = Some f"
    and d: "default_action f = SCMP_ACT_ALLOW"
    and a: "\<And>nr. filter_action f nr
                 = (if \<exists>name \<in> (set docker_default_denylist \<union> set (syscalls_deny opts0))
                                   - set (syscalls_allow opts0). resolve_name world_ok name = Some nr
                    then SCMP_ACT_ERRNO ENOSYS else SCMP_ACT_ALLOW)"
    by blast
  have a1: "filter_action f 161 = SCMP_ACT_ERRNO ENOSYS"
    unfolding a by (simp add: opts0_def docker_default_denylist_def)
  have "\<exists>name \<in> (set docker_default_denylist \<union> set (syscalls_deny opts0))
                    - set (syscalls_allow opts0). resolve_name world_ok name = Some 101"
    by (rule bexI [of _ "''ptrace''"]) (simp_all add: opts0_def docker_default_denylist_def)
  then have a2: "filter_action f 101 = SCMP_ACT_ERRNO ENOSYS"
    unfolding a by (simp only: if_True)
  have a3: "filter_action f 165 = SCMP_ACT_ALLOW"
    unfolding a by (simp add: opts0_def docker_default_denylist_def)
  show ?thesis
    using f d a1 a2 a3 by (simp add: merge_opts0 seccomp_world_ok e)
qed

subsection \<open>The calls of the filesystem builder\<close>

lemma is_bind_call_simps [simp]:
  "is_bind_call (Stat p)" "is_bind_call (Mkdir p m)" "is_bind_call (Open p fl)"
  "is_bind_call (Close f)"
  "is_bind_call (Mount src tgt fstype mfl data) = (fstype = None \<and> MS_BIND \<in> mfl)"
  "\<not> is_bind_call (shm_mount base)"
  by (simp_all add: is_bind_call_def shm_mount_def)

lemma build_call_simps [simp]:
  "build_call (Mount src tgt fstype mfl data)" "build_call (Mkdir p m)"
  "build_call (Mkdirat d p m)" "build_call (Stat p)" "build_call (Access p)"
  "build_call (Open p fl)" "build_call (Close f)" "build_call (Unlink p)"
  "build_call (Symlink a b)" "build_call (shm_mount base)"
  "\<not> build_call pivot_root_call" "\<not> build_call (Chdir p)" "\<not> build_call Prctl_no_new_privs"
  "\<not> build_call Seccomp_load" "\<not> build_call Seccomp_release"
  "build_call private_root_mount"
  by (simp_all add: build_call_def shm_mount_def pivot_root_call_def private_root_mount_def)

lemma bind_build: "is_bind_call c \<Longrightarrow> build_call c"
  by (cases c) (simp_all add: is_bind_call_def build_call_def)

lemma posix_ret_simps [simp]:
  "posix_ret (Mkdir p m, \<rho>) = (\<rho> = Ok 0 \<or> (\<exists>e. \<rho> = Err e))"
  "posix_ret (Stat p, \<rho>) = (\<rho> = Ok 0 \<or> (\<exists>e. \<rho> = Err e))"
  by (cases \<rho>; simp add: posix_ret_def)+

lemma posix_run_simps [simp]:
  "posix_run []" "posix_run (e # evs) = (posix_ret e \<and> posix_run evs)"
  "posix_run (evs @ evs') = (posix_run evs \<and> posix_run evs')"
  by (simp_all add: posix_run_def)

lemma maybe_mkdir_holds:
  "holds (\<lambda>r s'. \<exists>evs. emits s s' evs \<and> (\<forall>c \<rho>. (c, \<rho>) \<in> set evs \<longrightarrow> is_bind_call c)
            \<and> (r = 0 \<or> r = - 1 \<and> (posix_run evs \<longrightarrow> 0 < errno s')))
     (maybe_mkdir w path md s)"
  unfolding maybe_mkdir_def
  apply (intro vcg)
      apply (auto simp: emits_def)
  done

lemma mkdirp_loop_holds:
  "holds (\<lambda>r s'. \<exists>evs. emits s s' evs \<and> (\<forall>c \<rho>. (c, \<rho>) \<in> set evs \<longrightarrow> is_bind_call c)
            \<and> (r = 0 \<or> r = - 1 \<and> (posix_run evs \<longrightarrow> 0 < errno s')))
     (mkdirp_loop w path ps s)"
proof (induction ps arbitrary: s)
  case Nil
  show ?case by (simp add: emits_def)
next
  case (Cons p ps)
  show ?case
    unfolding mkdirp_loop.simps
    apply (intro vcg holds_weaken [OF maybe_mkdir_holds] holds_weaken [OF Cons.IH])
     apply ((auto simp: emits_def; blast)+)
    done
qed

lemma mkdirp_holds:
  "holds (\<lambda>r s'. \<exists>evs. emits s s' evs \<and> (\<forall>c \<rho>. (c, \<rho>) \<in> set evs \<longrightarrow> is_bind_call c)
            \<and> (r = 0 \<or> r = - 1 \<and> (posix_run evs \<longrightarrow> 0 < errno s')))
     (mkdirp w path s)"
  unfolding mkdirp_def
  apply (intro vcg holds_weaken [OF maybe_mkdir_holds] holds_weaken [OF mkdirp_loop_holds])
    apply ((auto simp: emits_def; blast)+)
  done

lemma bind_mount_mounts_holds:
  "holds (\<lambda>r s'. \<exists>evs. emits s s' evs \<and> (\<forall>c \<rho>. (c, \<rho>) \<in> set evs \<longrightarrow> is_bind_call c)
            \<and> (\<not> r < 0 \<longrightarrow>
                 (\<forall>c \<in> set (bind_mounts_of base spec). \<exists>n. (c, Ok n) \<in> set evs)))
     (bind_mount_mounts w spec (snprintf_buf PATH_MAX (base @ dest spec)) s)"
  unfolding bind_mount_mounts_def
  apply (intro vcg)
    apply (auto simp: emits_def bind_mounts_of_def not_Err_iff)
  done

lemma microbox_bind_mount_holds:
  "holds (\<lambda>r s'. \<exists>evs. emits s s' evs \<and> (\<forall>c \<rho>. (c, \<rho>) \<in> set evs \<longrightarrow> is_bind_call c)
            \<and> (\<exists>\<rho>. (Stat (host spec), \<rho>) \<in> set evs)
            \<and> (\<not> r < 0 \<longrightarrow>
                 (\<forall>c \<in> set (bind_mounts_of base spec). \<exists>n. (c, Ok n) \<in> set evs)))
     (microbox_bind_mount w base spec s)"
  unfolding microbox_bind_mount_def
  apply (intro vcg holds_weaken [OF mkdirp_holds] holds_weaken [OF bind_mount_mounts_holds])
          apply ((auto simp: emits_def; blast)+)
  done

lemma bind_user_mounts_holds:
  "holds (\<lambda>r s'. \<exists>evs. emits s s' evs \<and> (\<forall>c \<rho>. (c, \<rho>) \<in> set evs \<longrightarrow> is_bind_call c)
            \<and> (\<not> r < 0 \<longrightarrow>
                 (\<forall>c \<in> set (concat (map (bind_mounts_of base) ms)). \<exists>n. (c, Ok n) \<in> set evs)))
     (bind_user_mounts w base ms s)"
proof (induction ms arbitrary: s)
  case Nil
  show ?case by (simp add: emits_def)
next
  case (Cons m ms)
  show ?case
    unfolding bind_user_mounts.simps
    apply (intro vcg holds_weaken [OF microbox_bind_mount_holds] holds_weaken [OF Cons.IH])
     apply ((auto simp: emits_def; blast)+)
    done
qed

lemma bind_dev_dirs_trace:
  "\<exists>evs. emits s (bind_dev_dirs w base ds s) evs \<and> (\<forall>c \<rho>. (c, \<rho>) \<in> set evs \<longrightarrow> is_bind_call c)
         \<and> (\<forall>d \<in> set ds. \<exists>\<rho>. (Stat d, \<rho>) \<in> set evs)"
proof (induction ds arbitrary: s)
  case Nil
  show ?case by (simp add: emits_def)
next
  case (Cons d ds)
  obtain r s1 where run: "microbox_bind_mount w base \<lparr>host = d, dest = d, mode = MNT_RW\<rparr> s = (r, s1)"
    by (cases "microbox_bind_mount w base \<lparr>host = d, dest = d, mode = MNT_RW\<rparr> s")
  from holdsD [OF microbox_bind_mount_holds run]
  obtain evs1 \<rho> where e1: "emits s s1 evs1" "\<forall>c \<rho>. (c, \<rho>) \<in> set evs1 \<longrightarrow> is_bind_call c"
    "(Stat d, \<rho>) \<in> set evs1"
    by auto
  from Cons.IH [of s1]
  obtain evs2 where e2: "emits s1 (bind_dev_dirs w base ds s1) evs2"
    "\<forall>c \<rho>. (c, \<rho>) \<in> set evs2 \<longrightarrow> is_bind_call c" "\<forall>d \<in> set ds. \<exists>\<rho>. (Stat d, \<rho>) \<in> set evs2"
    by auto
  show ?case
    apply (rule exI [of _ "evs1 @ evs2"])
    using e1 e2 by (simp add: run emits_def) blast
qed

lemma dev_dirs_leaf:
  assumes "\<And>s' evs. emits s s' evs \<Longrightarrow> \<forall>c \<rho>. (c, \<rho>) \<in> set evs \<longrightarrow> is_bind_call c \<Longrightarrow>
             \<forall>d \<in> set ds. \<exists>\<rho>. (Stat d, \<rho>) \<in> set evs \<Longrightarrow> P r s'"
  shows "holds P (r, bind_dev_dirs w base ds s)"
  using bind_dev_dirs_trace [of s w base ds] assms by auto

lemma microsandbox_create_tmpfs_holds:
  "holds (\<lambda>r s'. \<exists>evs. emits s s' evs \<and> (\<forall>c \<rho>. (c, \<rho>) \<in> set evs \<longrightarrow> build_call c)
            \<and> (\<not> r < 0 \<longrightarrow> (\<exists>n. (tmpfs_mount path, Ok n) \<in> set evs)))
     (microsandbox_create_tmpfs w path s)"
  unfolding microsandbox_create_tmpfs_def mkdir_safe_def
  apply (intro vcg)
     apply (auto simp: emits_def tmpfs_mount_def not_Err_iff)
  done

lemma microsandbox_create_overlayfs_holds:
  "holds (\<lambda>fs s'. \<exists>evs. emits s s' evs \<and> (\<forall>c \<rho>. (c, \<rho>) \<in> set evs \<longrightarrow> build_call c)
            \<and> (\<forall>ofs. fs = Some ofs \<longrightarrow> mergedir ofs = path_join mountpoint ''merged''
                  \<and> (\<exists>n. (overlay_mount src mountpoint, Ok n) \<in> set evs)))
     (microsandbox_create_overlayfs w src mountpoint s)"
  unfolding microsandbox_create_overlayfs_def
  apply (intro vcg)
        apply (auto simp: emits_def overlay_mount_def not_Err_iff)
  done

lemma microbox_bind_mount_proc_holds:
  "holds (\<lambda>r s'. \<exists>evs. emits s s' evs \<and> (\<forall>c \<rho>. (c, \<rho>) \<in> set evs \<longrightarrow> build_call c)
            \<and> (posix_run evs \<longrightarrow> \<not> r < 0 \<longrightarrow> (\<exists>n. (proc_mount base, Ok n) \<in> set evs)))
     (microbox_bind_mount_proc w base s)"
  unfolding microbox_bind_mount_proc_def
  apply (intro vcg holds_weaken [OF mkdirp_holds])
    apply ((auto simp: emits_def proc_mount_def not_Err_iff; blast intro: bind_build)+)
  done

subsection \<open>The device allowlist\<close>

lemma shm_mount_eq [simp]:
  "(shm_mount base = Mount a b c d e)
     = (a = Some ''tmpfs'' \<and> b = snprintf_buf PATH_MAX (base @ ''/dev/shm'') \<and> c = Some ''tmpfs''
        \<and> d = {MS_NOSUID, MS_NOEXEC} \<and> e = Some ''mode=1777,size=64m'')"
  "(Mount a b c d e = shm_mount base)
     = (a = Some ''tmpfs'' \<and> b = snprintf_buf PATH_MAX (base @ ''/dev/shm'') \<and> c = Some ''tmpfs''
        \<and> d = {MS_NOSUID, MS_NOEXEC} \<and> e = Some ''mode=1777,size=64m'')"
  "shm_mount base \<noteq> Unlink p" "shm_mount base \<noteq> Symlink p q"
  "Unlink p \<noteq> shm_mount base" "Symlink p q \<noteq> shm_mount base"
  by (auto simp: shm_mount_def)

lemma not_bind_shm: "is_bind_call (shm_mount base) \<Longrightarrow> False"
  by simp

lemma microbox_bind_mount_dev_holds:
  "holds (\<lambda>r s'. \<exists>evs. emits s s' evs \<and> (\<forall>c \<rho>. (c, \<rho>) \<in> set evs \<longrightarrow> build_call c)
            \<and> ((\<exists>n. (shm_mount base, Ok n) \<in> set evs) \<longrightarrow>
                 r = 0 \<and> (\<forall>d \<in> set dev_dirs. \<exists>\<rho>. (Stat d, \<rho>) \<in> set evs))
            \<and> (posix_run evs \<longrightarrow> \<not> r < 0 \<longrightarrow>
                 (\<exists>n. (dev_mount base, Ok n) \<in> set evs) \<and> (\<exists>n. (shm_mount base, Ok n) \<in> set evs)))
     (microbox_bind_mount_dev w base s)"
  unfolding microbox_bind_mount_dev_def
  apply (intro dev_dirs_leaf vcg holds_weaken [OF mkdirp_holds])
          apply ((auto simp: emits_def dev_mount_def not_Err_iff; blast intro: bind_build dest: not_bind_shm)+)
  done

text \<open>
  Claim C10.  Once the \<^verbatim>\<open>/dev/shm\<close> mount of \<^verbatim>\<open>microbox_bind_mount_dev\<close> has succeeded,
  which is the last of the steps that can fail it (the tmpfs on \<^verbatim>\<open>/dev\<close>, devpts, the
  \<^verbatim>\<open>ptmx\<close> symlink and \<^verbatim>\<open>/dev/shm\<close>), the function returns 0 whatever the bind mounts
  of the device allowlist do, and each of the five devices has been tried: its host
  path has been looked up with \<^verbatim>\<open>stat\<close>, the first call of \<^verbatim>\<open>microbox_bind_mount\<close>.
\<close>

theorem dev_setup_ignores_device_binds:
  assumes run: "microbox_bind_mount_dev w base s = (r, s')"
    and shm: "(shm_mount base, Ok n) \<in> set (new_events s s')"
  shows "r = 0 \<and> (\<forall>d \<in> set dev_dirs. \<exists>\<rho>. (Stat d, \<rho>) \<in> set (new_events s s'))"
proof -
  from holdsD [OF microbox_bind_mount_dev_holds run]
  obtain evs where evs: "emits s s' evs"
    and a: "(\<exists>n. (shm_mount base, Ok n) \<in> set evs) \<longrightarrow>
              r = 0 \<and> (\<forall>d \<in> set dev_dirs. \<exists>\<rho>. (Stat d, \<rho>) \<in> set evs)"
    by blast
  have "new_events s s' = evs" using evs by (rule emits_new_events)
  with a shm show ?thesis by blast
qed

lemma sys_world_nobind:
  "sys world_nobind c s =
     (case c of
        Mount src tgt fstype fl data \<Rightarrow>
          if MS_BIND \<in> fl then (- 1, step s c (Err EPERM)) else (0, step s c (Ok 0))
      | _ \<Rightarrow> (0, step s c (Ok 0)))"
  by (simp add: sys_def world_nobind_def split: syscall.splits)

lemma st_type_world_nobind:
  "st_type world_nobind tr p = (if p \<in> set dev_dirs then S_IFCHR else S_IFDIR)"
  by (simp add: world_nobind_def)

lemma slash_positions_simps:
  "slash_positions ''/box/dev'' = [4]"
  "slash_positions ''/box/dev/pts'' = [4, 8]"
  "slash_positions ''/box/dev/shm'' = [4, 8]"
  by (simp_all add: slash_positions_def upt_rec)

lemma dirname_dev:
  "dirname ''/box/dev/null'' = ''/box/dev''"
  "dirname ''/box/dev/zero'' = ''/box/dev''"
  "dirname ''/box/dev/random'' = ''/box/dev''"
  "dirname ''/box/dev/urandom'' = ''/box/dev''"
  "dirname ''/box/dev/tty'' = ''/box/dev''"
  by (simp_all add: dirname_def strip_slashes_def)

lemma mkdirp_box_dev:
  "mkdirp world_nobind ''/box/dev'' s =
     (0, \<lparr>errno = 0, trace = trace s @ [(Mkdir ''/box'' 511, Ok 0), (Mkdir ''/box/dev'' 511, Ok 0)]\<rparr>)"
  by (simp add: mkdirp_def maybe_mkdir_def slash_positions_simps sys_world_nobind step_def)

lemma dev_world_nobind:
  "microbox_bind_mount_dev world_nobind ''/box'' s_init =
     (0, \<lparr>errno = 1, trace =
        [(Mkdir ''/box'' 511, Ok 0), (Mkdir ''/box/dev'' 511, Ok 0),
         (Mount (Some ''tmpfs'') ''/box/dev'' (Some ''tmpfs'') {MS_NOSUID, MS_NOEXEC}
            (Some ''mode=755,size=2m''), Ok 0),
         (Mkdir ''/box'' 511, Ok 0), (Mkdir ''/box/dev'' 511, Ok 0),
         (Mkdir ''/box/dev/pts'' 511, Ok 0),
         (Mount (Some ''devpts'') ''/box/dev/pts'' (Some ''devpts'') {MS_NOSUID, MS_NOEXEC}
            (Some ''newinstance,ptmxmode=0666,mode=620''), Ok 0),
         (Unlink ''/box/dev/ptmx'', Ok 0),
         (Symlink ''pts/ptmx'' ''/box/dev/ptmx'', Ok 0),
         (Mkdir ''/box'' 511, Ok 0), (Mkdir ''/box/dev'' 511, Ok 0),
         (Mkdir ''/box/dev/shm'' 511, Ok 0),
         (Mount (Some ''tmpfs'') ''/box/dev/shm'' (Some ''tmpfs'') {MS_NOSUID, MS_NOEXEC}
            (Some ''mode=1777,size=64m''), Ok 0),
         (Stat ''/dev/null'', Ok 0), (Mkdir ''/box'' 511, Ok 0),
         (Mkdir ''/box/dev'' 511, Ok 0),
         (Open ''/box/dev/null'' {O_CREAT}, Ok 0),
         (Close (File ''/box/dev/null''), Ok 0),
         (Mount (Some ''/dev/null'') ''/box/dev/null'' None {MS_BIND, MS_REC} None, Err EPERM),
         (Stat ''/dev/zero'', Ok 0), (Mkdir ''/box'' 511, Ok 0),
         (Mkdir ''/box/dev'' 511, Ok 0),
         (Open ''/box/dev/zero'' {O_CREAT}, Ok 0),
         (Close (File ''/box/dev/zero''), Ok 0),
         (Mount (Some ''/dev/zero'') ''/box/dev/zero'' None {MS_BIND, MS_REC} None, Err EPERM),
         (Stat ''/dev/random'', Ok 0), (Mkdir ''/box'' 511, Ok 0),
         (Mkdir ''/box/dev'' 511, Ok 0),
         (Open ''/box/dev/random'' {O_CREAT}, Ok 0),
         (Close (File ''/box/dev/random''), Ok 0),
         (Mount (Some ''/dev/random'') ''/box/dev/random'' None {MS_BIND, MS_REC} None, Err EPERM),
         (Stat ''/dev/urandom'', Ok 0), (Mkdir ''/box'' 511, Ok 0),
         (Mkdir ''/box/dev'' 511, Ok 0),
         (Open ''/box/dev/urandom'' {O_CREAT}, Ok 0),
         (Close (File ''/box/dev/urandom''), Ok 0),
         (Mount (Some ''/dev/urandom'') ''/box/dev/urandom'' None {MS_BIND, MS_REC} None, Err EPERM),
         (Stat ''/dev/tty'', Ok 0), (Mkdir ''/box'' 511, Ok 0),
         (Mkdir ''/box/dev'' 511, Ok 0),
         (Open ''/box/dev/tty'' {O_CREAT}, Ok 0),
         (Close (File ''/box/dev/tty''), Ok 0),
         (Mount (Some ''/dev/tty'') ''/box/dev/tty'' None {MS_BIND, MS_REC} None, Err EPERM)]\<rparr>)"
  by (simp add: microbox_bind_mount_dev_def dev_dirs_def microbox_bind_mount_def
      bind_mount_mounts_def mkdirp_box_dev dirname_dev
      mkdirp_def maybe_mkdir_def slash_positions_simps sys_world_nobind st_type_world_nobind
      snprintf_buf_def PATH_MAX_def shm_mount_def step_def s_init_def Let_def)

theorem dev_setup_ignores_device_binds_witness:
  "(shm_mount ''/box'', Ok 0)
     \<in> set (new_events s_init (snd (microbox_bind_mount_dev world_nobind ''/box'' s_init)))
   \<and> (Mount (Some ''/dev/null'') ''/box/dev/null'' None {MS_BIND, MS_REC} None, Err EPERM)
     \<in> set (new_events s_init (snd (microbox_bind_mount_dev world_nobind ''/box'' s_init)))
   \<and> fst (microbox_bind_mount_dev world_nobind ''/box'' s_init) = 0
   \<and> (\<exists>\<rho>. (Stat ''/dev/tty'', \<rho>)
          \<in> set (new_events s_init (snd (microbox_bind_mount_dev world_nobind ''/box'' s_init))))"
proof -
  have shm: "(shm_mount ''/box'', Ok 0)
     \<in> set (new_events s_init (snd (microbox_bind_mount_dev world_nobind ''/box'' s_init)))"
    by (simp add: dev_world_nobind shm_mount_def snprintf_buf_def PATH_MAX_def)
  have nul: "(Mount (Some ''/dev/null'') ''/box/dev/null'' None {MS_BIND, MS_REC} None, Err EPERM)
     \<in> set (new_events s_init (snd (microbox_bind_mount_dev world_nobind ''/box'' s_init)))"
    by (simp add: dev_world_nobind)
  have tty: "''/dev/tty'' \<in> set dev_dirs" by (simp add: dev_dirs_def)
  from dev_setup_ignores_device_binds [OF prod.collapse [symmetric] shm]
  have "fst (microbox_bind_mount_dev world_nobind ''/box'' s_init) = 0"
    and "\<forall>d \<in> set dev_dirs. \<exists>\<rho>. (Stat d, \<rho>)
          \<in> set (new_events s_init (snd (microbox_bind_mount_dev world_nobind ''/box'' s_init)))"
    by blast+
  with shm nul tty show ?thesis by blast
qed

end
